theory Spec2Isabelle
  imports Complex_Main "HOL-Library.AList"
begin

section \<open>Python values, dictionaries and exceptions\<close>

text \<open>
  The values that the TLVE data class stores in its dictionaries: \<open>None\<close>, floats,
  integers, strings, lists and nested dictionaries. A Python \<open>dict\<close> keeps insertion
  order and has one entry per key; it is an association list here, read with
  \<^const>\<open>map_of\<close>, written with \<^const>\<open>AList.update\<close> (which overwrites in place or
  appends, as Python does) and shrunk with \<^const>\<open>AList.delete\<close>.
\<close>

datatype npfloat = Fin real | PInf | NInf | NaN

datatype pyval =
    PNone
  | PFloat npfloat
  | PInt int
  | PStr string
  | PList "pyval list"
  | PDict "(string \<times> pyval) list"

type_synonym pydict = "(string \<times> pyval) list"

datatype error =
    ValueError
  | ImportError
  | KeyError
  | TypeError
  | UnboundLocalError
  | IndexError
  | ShapeMismatch

text \<open>\<open>len(v)\<close>: only sized objects have a length, anything else raises \<open>TypeError\<close>.\<close>

fun py_len :: "pyval \<Rightarrow> error + nat" where
  "py_len (PList xs) = Inr (length xs)"
| "py_len (PStr s) = Inr (length s)"
| "py_len (PDict d) = Inr (length d)"
| "py_len PNone = Inl TypeError"
| "py_len (PFloat x) = Inl TypeError"
| "py_len (PInt i) = Inl TypeError"

text \<open>The truth value Python gives an object in \<open>if v:\<close>.\<close>

fun py_truthy :: "pyval \<Rightarrow> bool" where
  "py_truthy PNone = False"
| "py_truthy (PFloat x) = (x \<noteq> Fin 0)"
| "py_truthy (PInt i) = (i \<noteq> 0)"
| "py_truthy (PStr s) = (s \<noteq> [])"
| "py_truthy (PList xs) = (xs \<noteq> [])"
| "py_truthy (PDict d) = (d \<noteq> [])"

text \<open>\<open>type(v) != float\<close>.\<close>

fun not_float :: "pyval \<Rightarrow> bool" where
  "not_float (PFloat x) = False"
| "not_float v = True"

definition has_key :: "pydict \<Rightarrow> string \<Rightarrow> bool" where
  "has_key d k = (map_of d k \<noteq> None)"

text \<open>\<open>d[k]\<close> raises \<open>KeyError\<close> on a missing key.\<close>

definition getitem :: "pydict \<Rightarrow> string \<Rightarrow> error + pyval" where
  "getitem d k = (case map_of d k of None \<Rightarrow> Inl KeyError | Some v \<Rightarrow> Inr v)"

text \<open>\<open>d.update(e)\<close>: every entry of \<open>e\<close> is written into \<open>d\<close>, in the order of \<open>e\<close>.\<close>

definition dict_update :: "pydict \<Rightarrow> pydict \<Rightarrow> pydict" where
  "dict_update d e = fold (\<lambda>(k, v) acc. AList.update k v acc) e d"

text \<open>Sequencing of a computation that may raise.\<close>

definition bind :: "error + 'a \<Rightarrow> ('a \<Rightarrow> error + 'b) \<Rightarrow> error + 'b" where
  "bind m f = (case m of Inl e \<Rightarrow> Inl e | Inr x \<Rightarrow> f x)"

section \<open>The TLVE data class: construction\<close>

text \<open>
  \<open>Data.__init__\<close> of \<open>fit_parameters/data_classes/TLVE.py\<close>. It first runs
  \<open>ExpDataTemplate.__init__\<close> of \<open>fit_parameters/interface.py\<close>, which is not modelled:
  what that call leaves behind, the dictionaries \<open>self.thermodict\<close> and \<open>self.weights\<close>,
  are the arguments \<open>td0\<close> and \<open>w0\<close> of the model. \<open>dd\<close> is \<open>data_dict\<close>.
\<close>

record data =
  thermodict :: pydict
  weights :: pydict
  npoints :: nat

text \<open>Lines 56 to 58: the solver options are reset, then merged with themselves.\<close>

definition init_density_dict :: "pydict \<Rightarrow> pydict" where
  "init_density_dict td0 =
     (let td = AList.update ''density_dict'' (PDict []) td0
      in if has_key td ''density_dict''
         then (case map_of td ''density_dict'' of
                 Some (PDict d) \<Rightarrow> AList.update ''density_dict'' (PDict (dict_update d d)) td
               | _ \<Rightarrow> td)
         else td)"

text \<open>
  The check on a weight that was given under a data header (lines 65 to 67, 77 to 79 and
  86 to 88): a weight that is not a float must be as long as the data.
\<close>

definition check_weight :: "pydict \<Rightarrow> pydict \<Rightarrow> string \<Rightarrow> error + unit" where
  "check_weight td w key =
     (if has_key w key
      then bind (getitem w key) (\<lambda>wv.
             if not_float wv
             then bind (py_len wv) (\<lambda>lw.
                  bind (getitem td key) (\<lambda>dv.
                  bind (py_len dv) (\<lambda>ld.
                    if lw \<noteq> ld then Inl ValueError else Inr ())))
             else Inr ())
      else Inr ())"

text \<open>\<open>self.weights[new] = self.weights.pop(old)\<close>, for a key \<open>old\<close> that is present.\<close>

definition rename_weight :: "pydict \<Rightarrow> string \<Rightarrow> string \<Rightarrow> pydict" where
  "rename_weight w old new =
     (case map_of w old of
        None \<Rightarrow> w
      | Some v \<Rightarrow> AList.update new v (AList.delete old w))"

text \<open>Lines 60 to 67 (\<open>xi\<close>) and 72 to 79 (\<open>yi\<close>): copy the data, rename and check the weight.\<close>

definition load_checked ::
  "string \<Rightarrow> string \<Rightarrow> pydict \<Rightarrow> pydict \<times> pydict \<Rightarrow> error + pydict \<times> pydict" where
  "load_checked hdr key dd s =
     (case s of (td, w) \<Rightarrow>
        (case map_of dd hdr of
           None \<Rightarrow> Inr (td, w)
         | Some v \<Rightarrow>
             (let td' = AList.update key v td
              in if has_key w hdr
                 then (let w' = rename_weight w hdr key
                       in bind (check_weight td' w' key) (\<lambda>_. Inr (td', w')))
                 else Inr (td', w))))"

text \<open>Lines 68 to 71 (\<open>T\<close>): copy the data and rename the weight; nothing is checked.\<close>

definition load_T :: "pydict \<Rightarrow> pydict \<times> pydict \<Rightarrow> error + pydict \<times> pydict" where
  "load_T dd s =
     (case s of (td, w) \<Rightarrow>
        (case map_of dd ''T'' of
           None \<Rightarrow> Inr (td, w)
         | Some v \<Rightarrow>
             (let td' = AList.update ''Tlist'' v td
              in if has_key w ''T''
                 then Inr (td', rename_weight w ''T'' ''Tlist'')
                 else Inr (td', w))))"

text \<open>Lines 80 to 88 (\<open>P\<close>): as for \<open>xi\<close>, and the pressures are also the first guess.\<close>

definition load_P :: "pydict \<Rightarrow> pydict \<times> pydict \<Rightarrow> error + pydict \<times> pydict" where
  "load_P dd s =
     (case s of (td, w) \<Rightarrow>
        (case map_of dd ''P'' of
           None \<Rightarrow> Inr (td, w)
         | Some v \<Rightarrow>
             (let td' = AList.update ''Pguess'' v (AList.update ''Plist'' v td)
              in if has_key w ''P''
                 then (let w' = rename_weight w ''P'' ''Plist''
                       in bind (check_weight td' w' ''Plist'') (\<lambda>_. Inr (td', w')))
                 else Inr (td', w))))"

text \<open>Lines 60 to 88 in the order of the source: \<open>xi\<close>, \<open>T\<close>, \<open>yi\<close>, \<open>P\<close>.\<close>

definition load_fields :: "pydict \<Rightarrow> pydict \<Rightarrow> pydict \<Rightarrow> error + pydict \<times> pydict" where
  "load_fields td w dd =
     bind (load_checked ''xi'' ''xilist'' dd (td, w)) (\<lambda>s1.
     bind (load_T dd s1) (\<lambda>s2.
     bind (load_checked ''yi'' ''yilist'' dd s2) (\<lambda>s3.
     load_P dd s3)))"

text \<open>Lines 90 to 94: the two presence checks.\<close>

definition check_present :: "pydict \<Rightarrow> error + unit" where
  "check_present td =
     (if \<not> has_key td ''Plist'' \<and> \<not> has_key td ''Tlist'' then Inl ImportError
      else if \<not> has_key td ''xilist'' \<or> \<not> has_key td ''yilist'' then Inl ImportError
      else Inr ())"

text \<open>Lines 97 to 100: the loop over \<open>thermo_keys\<close>.\<close>

fun check_lengths :: "pydict \<Rightarrow> nat \<Rightarrow> string list \<Rightarrow> error + unit" where
  "check_lengths td n [] = Inr ()"
| "check_lengths td n (key # keys) =
     (if has_key td key
      then bind (getitem td key) (\<lambda>v.
           bind (py_len v) (\<lambda>l.
             if l \<noteq> n then Inl ValueError else check_lengths td n keys))
      else check_lengths td n keys)"

text \<open>Lines 102 to 111: a missing calculation type is inferred from the compositions.\<close>

definition infer_calculation_type :: "pydict \<Rightarrow> error + pydict" where
  "infer_calculation_type td =
     bind (getitem td ''calculation_type'') (\<lambda>ct.
       if ct = PNone
       then bind (getitem td ''xilist'') (\<lambda>xi.
              if py_truthy xi
              then Inr (AList.update ''calculation_type'' (PStr ''phase_xiT'') td)
              else bind (getitem td ''yilist'') (\<lambda>yi.
                if py_truthy yi
                then Inr (AList.update ''calculation_type'' (PStr ''phase_yiT'') td)
                else Inl ValueError))
       else Inr td)"

text \<open>Lines 113 to 116: every other key of \<open>thermodict\<close> gets the weight 1.0 if it has none.\<close>

definition unweighted_keys :: "string list" where
  "unweighted_keys = [''calculation_type'', ''density_dict'', ''mpObj'']"

definition default_weights :: "pydict \<Rightarrow> pydict \<Rightarrow> pydict" where
  "default_weights td w =
     fold (\<lambda>key acc.
             if \<not> has_key acc key
             then (if key \<notin> set unweighted_keys
                   then AList.update key (PFloat (Fin 1)) acc else acc)
             else acc)
          (map fst td) w"

definition Data_init :: "pydict \<Rightarrow> pydict \<Rightarrow> pydict \<Rightarrow> error + data" where
  "Data_init td0 w0 dd =
     bind (load_fields (init_density_dict td0) w0 dd) (\<lambda>(td1, w1).
     bind (check_present td1) (\<lambda>_.
     bind (getitem td1 ''Tlist'') (\<lambda>tl.
     bind (py_len tl) (\<lambda>n.
     bind (check_lengths td1 n [''Plist'', ''xilist'', ''yilist'']) (\<lambda>_.
     bind (infer_calculation_type td1) (\<lambda>td2.
       Inr \<lparr>thermodict = td2, weights = default_weights td2 w1, npoints = n\<rparr>))))))"

text \<open>
  What the loading stage computes when no weight check raises: the dictionary of data
  (\<open>loaded_td\<close>), the weights with the headers of the data that was given renamed
  (\<open>loaded_w\<close>), and the condition under which the check of a header passes
  (\<open>weight_conforms\<close>). They are used to state the results below.
\<close>

definition weight_conforms :: "pydict \<Rightarrow> pydict \<Rightarrow> string \<Rightarrow> bool" where
  "weight_conforms dd w hdr =
     (case map_of dd hdr of
        None \<Rightarrow> True
      | Some v \<Rightarrow>
          (case map_of w hdr of
             None \<Rightarrow> True
           | Some wv \<Rightarrow> \<not> not_float wv \<or> (\<not> isl (py_len wv) \<and> py_len wv = py_len v)))"

definition loaded_td :: "pydict \<Rightarrow> pydict \<Rightarrow> pydict" where
  "loaded_td td dd =
     (let td1 = (case map_of dd ''xi'' of None \<Rightarrow> td | Some v \<Rightarrow> AList.update ''xilist'' v td);
          td2 = (case map_of dd ''T'' of None \<Rightarrow> td1 | Some v \<Rightarrow> AList.update ''Tlist'' v td1);
          td3 = (case map_of dd ''yi'' of None \<Rightarrow> td2 | Some v \<Rightarrow> AList.update ''yilist'' v td2)
      in (case map_of dd ''P'' of None \<Rightarrow> td3
          | Some v \<Rightarrow> AList.update ''Pguess'' v (AList.update ''Plist'' v td3)))"

definition moved_w :: "string \<Rightarrow> string \<Rightarrow> pydict \<Rightarrow> pydict \<Rightarrow> pydict" where
  "moved_w hdr key dd w = (if has_key dd hdr \<and> has_key w hdr then rename_weight w hdr key else w)"

definition loaded_w :: "pydict \<Rightarrow> pydict \<Rightarrow> pydict" where
  "loaded_w w dd =
     moved_w ''P'' ''Plist'' dd (moved_w ''yi'' ''yilist'' dd (moved_w ''T'' ''Tlist'' dd (moved_w ''xi'' ''xilist'' dd w)))"

text \<open>
  The condition under which the construction succeeds, for a template that has not
  itself stored any of \<open>Tlist\<close>, \<open>Plist\<close>, \<open>xilist\<close>, \<open>yilist\<close>: \<open>T\<close>, \<open>xi\<close> and \<open>yi\<close>
  are given and have one length, \<open>P\<close> has that length if it is given, the weights given
  under \<open>xi\<close>, \<open>yi\<close> and \<open>P\<close> conform, and the calculation type is set or can be inferred.
\<close>

definition construction_ok :: "pydict \<Rightarrow> pydict \<Rightarrow> pydict \<Rightarrow> bool" where
  "construction_ok td0 w0 dd \<longleftrightarrow>
     weight_conforms dd w0 ''xi'' \<and> weight_conforms dd w0 ''yi'' \<and> weight_conforms dd w0 ''P'' \<and>
     (case (map_of dd ''T'', map_of dd ''xi'', map_of dd ''yi'') of
        (Some tv, Some xv, Some yv) \<Rightarrow>
          (case py_len tv of
             Inl e \<Rightarrow> False
           | Inr n \<Rightarrow>
               py_len xv = Inr n \<and> py_len yv = Inr n \<and>
               (case map_of dd ''P'' of None \<Rightarrow> True | Some pv \<Rightarrow> py_len pv = Inr n) \<and>
               (case map_of td0 ''calculation_type'' of
                  None \<Rightarrow> False
                | Some ct \<Rightarrow> ct = PNone \<longrightarrow> n \<noteq> 0))
      | _ \<Rightarrow> False)"

section \<open>Floating-point values\<close>

text \<open>
  A NumPy \<open>float64\<close> is a finite number, \<open>+inf\<close>, \<open>-inf\<close> or \<open>nan\<close>
  (\<^typ>\<open>npfloat\<close>). The operations follow IEEE 754 on the special values: a non-zero
  number divided by zero is an infinity, \<open>0/0\<close>, \<open>inf - inf\<close>, \<open>0 * inf\<close> and
  \<open>inf/inf\<close> are \<open>nan\<close>, and \<open>nan\<close> propagates. On finite values they are the exact
  operations on the reals: rounding, overflow and underflow are not modelled, and the two
  zeros are one value that divides like \<open>+0.0\<close>.
\<close>

fun is_finite :: "npfloat \<Rightarrow> bool" where
  "is_finite (Fin x) = True"
| "is_finite PInf = False"
| "is_finite NInf = False"
| "is_finite NaN = False"

fun isnan :: "npfloat \<Rightarrow> bool" where
  "isnan NaN = True"
| "isnan (Fin x) = False"
| "isnan PInf = False"
| "isnan NInf = False"

fun fneg :: "npfloat \<Rightarrow> npfloat" where
  "fneg (Fin x) = Fin (- x)"
| "fneg PInf = NInf"
| "fneg NInf = PInf"
| "fneg NaN = NaN"

fun fadd :: "npfloat \<Rightarrow> npfloat \<Rightarrow> npfloat" where
  "fadd (Fin x) (Fin y) = Fin (x + y)"
| "fadd (Fin x) PInf = PInf"
| "fadd (Fin x) NInf = NInf"
| "fadd PInf (Fin y) = PInf"
| "fadd NInf (Fin y) = NInf"
| "fadd PInf PInf = PInf"
| "fadd NInf NInf = NInf"
| "fadd PInf NInf = NaN"
| "fadd NInf PInf = NaN"
| "fadd NaN y = NaN"
| "fadd (Fin x) NaN = NaN"
| "fadd PInf NaN = NaN"
| "fadd NInf NaN = NaN"

definition fsub :: "npfloat \<Rightarrow> npfloat \<Rightarrow> npfloat" where
  "fsub x y = fadd x (fneg y)"

text \<open>The infinity with the sign of a non-zero real, \<open>nan\<close> for zero.\<close>

definition inf_of_sign :: "real \<Rightarrow> npfloat" where
  "inf_of_sign s = (if s = 0 then NaN else if 0 < s then PInf else NInf)"

fun fmul :: "npfloat \<Rightarrow> npfloat \<Rightarrow> npfloat" where
  "fmul (Fin x) (Fin y) = Fin (x * y)"
| "fmul (Fin x) PInf = inf_of_sign x"
| "fmul (Fin x) NInf = inf_of_sign (- x)"
| "fmul PInf (Fin y) = inf_of_sign y"
| "fmul NInf (Fin y) = inf_of_sign (- y)"
| "fmul PInf PInf = PInf"
| "fmul NInf NInf = PInf"
| "fmul PInf NInf = NInf"
| "fmul NInf PInf = NInf"
| "fmul NaN y = NaN"
| "fmul (Fin x) NaN = NaN"
| "fmul PInf NaN = NaN"
| "fmul NInf NaN = NaN"

fun fdiv :: "npfloat \<Rightarrow> npfloat \<Rightarrow> npfloat" where
  "fdiv (Fin x) (Fin y) = (if y = 0 then inf_of_sign x else Fin (x / y))"
| "fdiv (Fin x) PInf = Fin 0"
| "fdiv (Fin x) NInf = Fin 0"
| "fdiv PInf (Fin y) = (if 0 \<le> y then PInf else NInf)"
| "fdiv NInf (Fin y) = (if 0 \<le> y then NInf else PInf)"
| "fdiv PInf PInf = NaN"
| "fdiv NInf NInf = NaN"
| "fdiv PInf NInf = NaN"
| "fdiv NInf PInf = NaN"
| "fdiv NaN y = NaN"
| "fdiv (Fin x) NaN = NaN"
| "fdiv PInf NaN = NaN"
| "fdiv NInf NaN = NaN"

text \<open>\<open>x ** 2\<close> and \<open>x ** 3\<close>.\<close>

definition fsquare :: "npfloat \<Rightarrow> npfloat" where
  "fsquare x = fmul x x"

definition fcube :: "npfloat \<Rightarrow> npfloat" where
  "fcube x = fmul (fmul x x) x"

text \<open>\<open>np.dot\<close> of two vectors, and of a matrix with a vector.\<close>

fun dot :: "npfloat list \<Rightarrow> npfloat list \<Rightarrow> npfloat" where
  "dot (x # xs) (y # ys) = fadd (fmul x y) (dot xs ys)"
| "dot xs ys = Fin 0"

definition matvec :: "npfloat list list \<Rightarrow> npfloat list \<Rightarrow> npfloat list" where
  "matvec m v = map (\<lambda>row. dot row v) m"

text \<open>\<open>np.nansum\<close>: the sum with every \<open>nan\<close> counted as zero.\<close>

definition nansum :: "npfloat list \<Rightarrow> npfloat" where
  "nansum xs = foldl fadd (Fin 0) (map (\<lambda>x. if isnan x then Fin 0 else x) xs)"

section \<open>The first-order perturbation term\<close>

text \<open>
  \<open>calc_a1s_2d\<close> and \<open>calc_a1s_1d\<close> of \<open>equations_of_state/saft/gamma_mie_funcs_opt.py\<close>,
  with NumPy's semantics (the functions as they run with the JIT disabled; compiled, the
  scalar division \<open>1.0/l_kl[k]\<close> alone would raise \<open>ZeroDivisionError\<close> at \<open>\<lambda> = 0\<close>). The module
  constant \<open>ckl_coef\<close> is imported from \<open>constants.py\<close> and is the argument \<open>ckl\<close> here.
  Arrays are lists, matrices lists of rows.
\<close>

text \<open>Lines 47 to 50 and 89 to 92: one row of \<open>zetax_pow\<close>.\<close>

definition zetax_pow_row :: "npfloat \<Rightarrow> npfloat list" where
  "zetax_pow_row z =
     (let p0 = z; p1 = fmul p0 p0; p2 = fmul p1 p0; p3 = fmul p2 p0
      in [p0, p1, p2, p3])"

text \<open>The vector \<open>(1.0, 1.0/l, 1.0/l**2, 1.0/l**3)\<close> of lines 57 and 98.\<close>

definition lambda_vec :: "npfloat \<Rightarrow> npfloat list" where
  "lambda_vec l =
     [Fin 1, fdiv (Fin 1) l, fdiv (Fin 1) (fsquare l), fdiv (Fin 1) (fcube l)]"

text \<open>One entry of \<open>etakl\<close>: \<open>np.dot(zetax_pow[i], np.dot(ckl_coef, ...))\<close>.\<close>

definition etakl_entry :: "npfloat list list \<Rightarrow> npfloat list \<Rightarrow> npfloat \<Rightarrow> npfloat" where
  "etakl_entry ckl zp l = dot zp (matvec ckl (lambda_vec l))"

text \<open>One entry of \<open>a1s\<close> in line 59, in the order in which Python evaluates it.\<close>

definition a1s_entry_2d ::
  "npfloat \<Rightarrow> npfloat \<Rightarrow> npfloat \<Rightarrow> npfloat \<Rightarrow> npfloat \<Rightarrow> npfloat" where
  "a1s_entry_2d Cmol2seg eta l eps d =
     fmul (fmul (fmul (fmul
       (fdiv (fsub (Fin 1) (fdiv eta (Fin 2))) (fcube (fsub (Fin 1) eta)))
       (Fin (- 2))) (Fin pi)) Cmol2seg)
       (fdiv (fmul eps (fcube d)) (fsub l (Fin 3)))"

text \<open>One entry of \<open>a1s\<close> in line 100.\<close>

definition a1s_entry_1d ::
  "npfloat \<Rightarrow> npfloat \<Rightarrow> npfloat \<Rightarrow> npfloat \<Rightarrow> npfloat \<Rightarrow> npfloat" where
  "a1s_entry_1d Cmol2seg eta l eps d =
     fmul (fdiv (fsub (Fin 1) (fdiv eta (Fin 2))) (fcube (fsub (Fin 1) eta)))
          (fmul (fmul (fmul (Fin (- 2)) (Fin pi)) Cmol2seg)
                (fdiv (fmul eps (fcube d)) (fsub l (Fin 3))))"

text \<open>
  \<open>zetax_pow[:, 0] = zetax\<close>: \<open>zetax\<close> has one value per density, or a single value
  that NumPy broadcasts; any other length raises \<open>ValueError\<close>.
\<close>

definition broadcast_zetax :: "nat \<Rightarrow> npfloat list \<Rightarrow> error + npfloat list" where
  "broadcast_zetax n zetax =
     (if length zetax = n then Inr zetax
      else (case zetax of [z] \<Rightarrow> Inr (replicate n z) | _ \<Rightarrow> Inl ValueError))"

definition is_matrix :: "nat \<Rightarrow> nat \<Rightarrow> 'a list list \<Rightarrow> bool" where
  "is_matrix r c m \<longleftrightarrow> length m = r \<and> list_all (\<lambda>row. length row = c) m"

text \<open>
  The model covers the calls for which the functions are written: \<open>l_kl\<close>, \<open>epsilonkl\<close>
  and \<open>dkl\<close> square of one size in the matrix form, vectors of one length in the vector
  form. On other shapes NumPy broadcasts or raises, depending on the shapes; the model
  answers all of them with \<open>ShapeMismatch\<close> and no result below is about them.
  \<open>np.dot\<close> raises \<open>ValueError\<close> unless \<open>ckl_coef\<close> is 4 by 4.
\<close>

definition calc_a1s_2d ::
  "npfloat list list \<Rightarrow> npfloat list \<Rightarrow> npfloat \<Rightarrow> npfloat list list \<Rightarrow> npfloat list
     \<Rightarrow> npfloat list list \<Rightarrow> npfloat list list \<Rightarrow> error + npfloat list list list" where
  "calc_a1s_2d ckl rho Cmol2seg l_kl zetax epsilonkl dkl =
     (let nbeads = length dkl in
      bind (broadcast_zetax (length rho) zetax) (\<lambda>zx.
        if \<not> (is_matrix nbeads nbeads l_kl \<and> is_matrix nbeads nbeads epsilonkl
                \<and> is_matrix nbeads nbeads dkl)
        then Inl ShapeMismatch
        else if 0 < nbeads \<and> \<not> is_matrix 4 4 ckl then Inl ValueError
        else
          (let zetax_pow = map zetax_pow_row zx;
               etakl = map (\<lambda>zp. map (map (etakl_entry ckl zp)) l_kl) zetax_pow;
               a1s = map (\<lambda>eta_i.
                       map (\<lambda>(eta_row, l_row, e_row, d_row).
                              map (\<lambda>(eta, l, e, d). a1s_entry_2d Cmol2seg eta l e d)
                                  (zip eta_row (zip l_row (zip e_row d_row))))
                           (zip eta_i (zip l_kl (zip epsilonkl dkl))))
                     etakl
           in Inr (map (\<lambda>(a_i, r). map (map (\<lambda>a. fmul a r)) a_i) (zip a1s rho)))))"

definition calc_a1s_1d ::
  "npfloat list list \<Rightarrow> npfloat list \<Rightarrow> npfloat \<Rightarrow> npfloat list \<Rightarrow> npfloat list
     \<Rightarrow> npfloat list \<Rightarrow> npfloat list \<Rightarrow> error + npfloat list list" where
  "calc_a1s_1d ckl rho Cmol2seg l_kl zetax epsilonkl dkl =
     (let nbeads = length dkl in
      bind (broadcast_zetax (length rho) zetax) (\<lambda>zx.
        if \<not> (length l_kl = nbeads \<and> length epsilonkl = nbeads)
        then Inl ShapeMismatch
        else if 0 < nbeads \<and> \<not> is_matrix 4 4 ckl then Inl ValueError
        else
          (let zetax_pow = map zetax_pow_row zx;
               etakl = map (\<lambda>zp. map (etakl_entry ckl zp) l_kl) zetax_pow;
               a1s = map (\<lambda>eta_i.
                       map (\<lambda>(eta, l, e, d). a1s_entry_1d Cmol2seg eta l e d)
                           (zip eta_i (zip l_kl (zip epsilonkl dkl))))
                     etakl
           in Inr (map (\<lambda>(a_i, r). map (\<lambda>a. fmul a r) a_i) (zip a1s rho)))))"

text \<open>
  The coefficients of the SAFT-VR Mie correlation for the effective packing fraction, the
  values that \<open>ckl_coef\<close> has in the published equation of state. They serve as the
  coefficient matrix of the concrete examples; the general results hold for every matrix.
\<close>

definition ckl_real :: "real list list" where
  "ckl_real =
     [[81096 / 100000, 17888 / 10000, - 37578 / 1000, 92284 / 1000],
      [10205 / 10000, - 19341 / 1000, 15126 / 100, - 46350 / 100],
      [- 19057 / 10000, 22845 / 1000, - 22814 / 100, 97392 / 100],
      [10885 / 10000, - 61962 / 10000, 10698 / 100, - 67764 / 100]]"

definition ckl_published :: "npfloat list list" where
  "ckl_published = map (map Fin) ckl_real"

text \<open>
  The same term over the reals, for finite arguments away from the poles: \<open>coef c l j\<close>
  is entry \<open>j\<close> of the coefficient matrix applied to \<open>(1, 1/l, 1/l\<^sup>2, 1/l\<^sup>3)\<close>,
  \<open>eta_real\<close> the polynomial that the code evaluates in the powers \<open>z\<close> to \<open>z\<^sup>4\<close>, and
  \<open>a1s_real\<close> the resulting entry.
\<close>

definition coef :: "real list list \<Rightarrow> real \<Rightarrow> nat \<Rightarrow> real" where
  "coef c l j = c ! j ! 0 + c ! j ! 1 / l + c ! j ! 2 / l ^ 2 + c ! j ! 3 / l ^ 3"

definition eta_real :: "real list list \<Rightarrow> real \<Rightarrow> real \<Rightarrow> real" where
  "eta_real c z l = z * coef c l 0 + z ^ 2 * coef c l 1 + z ^ 3 * coef c l 2 + z ^ 4 * coef c l 3"

definition a1s_real ::
  "real list list \<Rightarrow> real \<Rightarrow> real \<Rightarrow> real \<Rightarrow> real \<Rightarrow> real \<Rightarrow> real \<Rightarrow> real" where
  "a1s_real c Cmol2seg z l eps d r =
     (1 - eta_real c z l / 2) / (1 - eta_real c z l) ^ 3
       * (- 2 * pi * Cmol2seg * (eps * d ^ 3 / (l - 3))) * r"

text \<open>
  The algorithm in the words of the specification, section 4.1: powers of \<open>\<zeta>\<^sub>x\<close> up to
  degree 3, a polynomial of four terms in them, and the correction factor
  \<open>(1 - \<zeta>\<^sub>x/2)/(1 - \<zeta>\<^sub>x)\<^sup>3\<close>. \<open>spec_a1s_literal\<close> takes the factor in \<open>\<zeta>\<^sub>x\<close> as it is
  written; \<open>spec_a1s_poly\<close> takes it in the value of the polynomial.
\<close>

definition spec_poly :: "real list list \<Rightarrow> real \<Rightarrow> real \<Rightarrow> real" where
  "spec_poly c z l = coef c l 0 + z * coef c l 1 + z ^ 2 * coef c l 2 + z ^ 3 * coef c l 3"

definition spec_a1s_literal ::
  "real \<Rightarrow> real \<Rightarrow> real \<Rightarrow> real \<Rightarrow> real \<Rightarrow> real \<Rightarrow> real" where
  "spec_a1s_literal Cmol2seg z l eps d r =
     (1 - z / 2) / (1 - z) ^ 3 * (- 2 * pi * Cmol2seg * eps * d ^ 3 / (l - 3)) * r"

definition spec_a1s_poly ::
  "real list list \<Rightarrow> real \<Rightarrow> real \<Rightarrow> real \<Rightarrow> real \<Rightarrow> real \<Rightarrow> real \<Rightarrow> real" where
  "spec_a1s_poly c Cmol2seg z l eps d r =
     (1 - spec_poly c z l / 2) / (1 - spec_poly c z l) ^ 3
       * (- 2 * pi * Cmol2seg * eps * d ^ 3 / (l - 3)) * r"

section \<open>The TLVE data class: objective\<close>

text \<open>
  \<open>Data._thermo_wrapper\<close> and \<open>Data.objective\<close>. The functions they call are imported
  from other modules and are the fields of \<open>env\<close>: \<open>thermo\<close> (with the equation of
  state fixed), lines 160 and 161 as \<open>reformat\<close> (\<open>ff.reformat_ouput\<close>, then the transposed
  array, as its rows), \<open>np.transpose\<close> of the measured compositions as \<open>transpose_data\<close>,
  and \<open>ff.obj_function_form\<close> with the options of the data set. Each may raise.
\<close>

record env =
  thermo :: "pydict \<Rightarrow> error + pydict"
  reformat :: "pyval list \<Rightarrow> error + npfloat list list"
  transpose_data :: "pyval \<Rightarrow> error + pyval list"
  obj_function_form :: "npfloat list \<Rightarrow> pyval \<Rightarrow> pyval \<Rightarrow> error + npfloat"

text \<open>\<open>try: ... except: raise ValueError(...)\<close>: every exception becomes \<open>ValueError\<close>.\<close>

definition reraise_ValueError :: "error + 'a \<Rightarrow> error + 'a" where
  "reraise_ValueError m = (case m of Inl e \<Rightarrow> Inl ValueError | Inr x \<Rightarrow> Inr x)"

text \<open>Lines 131 to 145. With any other calculation type \<open>output\<close> is unbound at the return.\<close>

definition thermo_wrapper :: "env \<Rightarrow> data \<Rightarrow> error + pyval list" where
  "thermo_wrapper e st =
     bind (getitem (thermodict st) ''calculation_type'') (\<lambda>ct.
       if ct = PStr ''phase_xiT''
       then reraise_ValueError
              (bind (thermo e (thermodict st)) (\<lambda>output_dict.
               bind (getitem output_dict ''P'') (\<lambda>p.
               bind (getitem output_dict ''yi'') (\<lambda>y. Inr [p, y]))))
       else if ct = PStr ''phase_yiT''
       then reraise_ValueError
              (bind (thermo e (thermodict st)) (\<lambda>output_dict.
               bind (getitem output_dict ''P'') (\<lambda>p.
               bind (getitem output_dict ''xi'') (\<lambda>x. Inr [p, x]))))
       else Inl UnboundLocalError)"

text \<open>\<open>phase_list[i]\<close> raises \<open>IndexError\<close> beyond the last row.\<close>

definition nth_row :: "'a list \<Rightarrow> nat \<Rightarrow> error + 'a" where
  "nth_row rows i = (if i < length rows then Inr (rows ! i) else Inl IndexError)"

text \<open>
  The loops of lines 172 and 173 and of lines 178 and 179: the scores of the components
  are added to \<open>obj_value[1]\<close>, which starts at zero.
\<close>

fun obj_channel ::
  "env \<Rightarrow> npfloat list list \<Rightarrow> pydict \<Rightarrow> string \<Rightarrow> nat \<Rightarrow> pyval list \<Rightarrow> npfloat
     \<Rightarrow> error + npfloat" where
  "obj_channel e rows w key i [] acc = Inr acc"
| "obj_channel e rows w key i (y # ys) acc =
     bind (nth_row rows (1 + i)) (\<lambda>r.
     bind (getitem w key) (\<lambda>wv.
     bind (obj_function_form e r y wv) (\<lambda>v.
       obj_channel e rows w key (Suc i) ys (fadd acc v))))"

text \<open>Lines 159 to 179: the vector \<open>obj_value\<close> of the two channel scores.\<close>

definition obj_values :: "env \<Rightarrow> data \<Rightarrow> error + npfloat list" where
  "obj_values e st =
     bind (thermo_wrapper e st) (\<lambda>phase_list.
     bind (reformat e phase_list) (\<lambda>rows.
     bind (if has_key (thermodict st) ''Plist''
           then bind (nth_row rows 0) (\<lambda>r.
                bind (getitem (thermodict st) ''Plist'') (\<lambda>p.
                bind (getitem (weights st) ''Plist'') (\<lambda>wv.
                  obj_function_form e r p wv)))
           else Inr (Fin 0)) (\<lambda>v0.
     bind (getitem (thermodict st) ''calculation_type'') (\<lambda>ct.
     bind (if ct = PStr ''phase_xiT''
           then (if has_key (thermodict st) ''yilist''
                 then bind (getitem (thermodict st) ''yilist'') (\<lambda>yl.
                      bind (transpose_data e yl) (\<lambda>yi.
                        obj_channel e rows (weights st) ''yilist'' 0 yi (Fin 0)))
                 else Inr (Fin 0))
           else if ct = PStr ''phase_yiT''
           then (if has_key (thermodict st) ''xilist''
                 then bind (getitem (thermodict st) ''xilist'') (\<lambda>xl.
                      bind (transpose_data e xl) (\<lambda>xi.
                        obj_channel e rows (weights st) ''xilist'' 0 xi (Fin 0)))
                 else Inr (Fin 0))
           else Inr (Fin 0)) (\<lambda>v1.
       Inr [v0, v1])))))"

text \<open>Lines 183 to 186.\<close>

definition obj_total :: "npfloat list \<Rightarrow> npfloat" where
  "obj_total v = (if list_all (\<lambda>x. isnan x \<or> x = Fin 0) v then PInf else nansum v)"

definition objective :: "env \<Rightarrow> data \<Rightarrow> error + npfloat" where
  "objective e st = bind (obj_values e st) (\<lambda>v. Inr (obj_total v))"

text \<open>
  Concrete data and environments for the examples below: a data set of one point, as the
  constructor leaves it, with the measured pressure 0; an environment whose prediction
  raises; and one whose prediction succeeds and whose pressure channel scores \<open>p\<close>.
\<close>

definition failing_env :: env where
  "failing_env =
     \<lparr>thermo = (\<lambda>td. Inl ValueError),
      reformat = (\<lambda>pl. Inr []),
      transpose_data = (\<lambda>v. Inr []),
      obj_function_form = (\<lambda>r d w. Inr (Fin 0))\<rparr>"

definition example_data :: data where
  "example_data =
     \<lparr>thermodict =
        [(''calculation_type'', PStr ''phase_xiT''), (''density_dict'', PDict []),
         (''xilist'', PList [PList [PFloat (Fin 1)]]), (''Tlist'', PList [PFloat (Fin 300)]),
         (''yilist'', PList [PList [PFloat (Fin 1)]]), (''Plist'', PList [PFloat (Fin 0)]),
         (''Pguess'', PList [PFloat (Fin 0)])],
      weights =
        [(''xilist'', PFloat (Fin 1)), (''Tlist'', PFloat (Fin 1)), (''yilist'', PFloat (Fin 1)),
         (''Plist'', PFloat (Fin 1)), (''Pguess'', PFloat (Fin 1))],
      npoints = 1\<rparr>"

definition scoring_env :: "npfloat \<Rightarrow> env" where
  "scoring_env p =
     \<lparr>thermo = (\<lambda>td. Inr [(''P'', PList [PFloat (Fin 1)]), (''yi'', PList [PList [PFloat (Fin 1)]])]),
      reformat = (\<lambda>pl. Inr [[Fin 1], [Fin 1]]),
      transpose_data = (\<lambda>v. Inr [PList [PFloat (Fin 1)]]),
      obj_function_form = (\<lambda>r d w. if d = PList [PFloat (Fin 0)] then Inr p else Inr (Fin 0))\<rparr>"

section \<open>Properties of the construction\<close>

lemma bind_Inr_iff: "bind m f = Inr y \<longleftrightarrow> (\<exists>x. m = Inr x \<and> f x = Inr y)"
  by (cases m) (simp_all add: bind_def)

lemma bind_Inr [simp]: "bind (Inr x) f = f x"
  by (simp add: bind_def)

lemma bind_Inl [simp]: "bind (Inl e) f = Inl e"
  by (simp add: bind_def)

lemma getitem_Inr_iff: "getitem d k = Inr v \<longleftrightarrow> map_of d k = Some v"
  by (simp add: getitem_def split: option.splits)

lemma getitem_Some [simp]: "map_of d k = Some v \<Longrightarrow> getitem d k = Inr v"
  by (simp add: getitem_def)

lemma getitem_None [simp]: "map_of d k = None \<Longrightarrow> getitem d k = Inl KeyError"
  by (simp add: getitem_def)

lemma has_key_update [simp]: "has_key (AList.update k v d) k' \<longleftrightarrow> k = k' \<or> has_key d k'"
  by (simp add: has_key_def update_conv')

lemma map_of_rename:
  "map_of (rename_weight w old new) k =
     (case map_of w old of
        None \<Rightarrow> map_of w k
      | Some v \<Rightarrow> if k = new then Some v else if k = old then None else map_of w k)"
  by (simp add: rename_weight_def update_conv' delete_conv' split: option.splits)

lemma check_weight_iff:
  "map_of td key = Some v \<Longrightarrow> map_of w key = Some wv \<Longrightarrow>
   check_weight td w key = Inr u \<longleftrightarrow> (\<not> not_float wv \<or> (\<not> isl (py_len wv) \<and> py_len wv = py_len v))"
  by (cases "py_len wv"; cases "py_len v") (auto simp: check_weight_def has_key_def)

lemma load_checked_iff:
  "load_checked hdr key dd (td, w) = Inr s \<longleftrightarrow>
     weight_conforms dd w hdr \<and>
     s = ((case map_of dd hdr of None \<Rightarrow> td | Some v \<Rightarrow> AList.update key v td), moved_w hdr key dd w)"
proof (cases "map_of dd hdr")
  case None
  then show ?thesis
    by (auto simp: load_checked_def weight_conforms_def moved_w_def has_key_def)
next
  case (Some v)
  show ?thesis
  proof (cases "map_of w hdr")
    case None
    with Some show ?thesis
      by (auto simp: load_checked_def weight_conforms_def moved_w_def has_key_def)
  next
    case (Some wv)
    have m: "map_of (rename_weight w hdr key) key = Some wv"
      using Some by (simp add: map_of_rename)
    have t: "map_of (AList.update key v td) key = Some v"
      by (simp add: update_conv')
    from check_weight_iff [OF t m]
    have c: "\<And>u. check_weight (AList.update key v td) (rename_weight w hdr key) key = Inr u
        \<longleftrightarrow> (\<not> not_float wv \<or> (\<not> isl (py_len wv) \<and> py_len wv = py_len v))" .
    show ?thesis
      using \<open>map_of dd hdr = Some v\<close> Some c
      by (auto simp: load_checked_def weight_conforms_def moved_w_def has_key_def Let_def bind_Inr_iff)
  qed
qed

lemma load_T_eq:
  "load_T dd (td, w) =
     Inr ((case map_of dd ''T'' of None \<Rightarrow> td | Some v \<Rightarrow> AList.update ''Tlist'' v td),
          moved_w ''T'' ''Tlist'' dd w)"
  by (simp add: load_T_def moved_w_def has_key_def Let_def split: option.splits)

lemma load_P_iff:
  "load_P dd (td, w) = Inr s \<longleftrightarrow>
     weight_conforms dd w ''P'' \<and>
     s = ((case map_of dd ''P'' of None \<Rightarrow> td
           | Some v \<Rightarrow> AList.update ''Pguess'' v (AList.update ''Plist'' v td)),
          moved_w ''P'' ''Plist'' dd w)"
proof (cases "map_of dd ''P''")
  case None
  then show ?thesis
    by (auto simp: load_P_def weight_conforms_def moved_w_def has_key_def)
next
  case (Some v)
  show ?thesis
  proof (cases "map_of w ''P''")
    case None
    with Some show ?thesis
      by (auto simp: load_P_def weight_conforms_def moved_w_def has_key_def)
  next
    case (Some wv)
    have m: "map_of (rename_weight w ''P'' ''Plist'') ''Plist'' = Some wv"
      using Some by (simp add: map_of_rename)
    have t: "map_of (AList.update ''Pguess'' v (AList.update ''Plist'' v td)) ''Plist'' = Some v"
      by (simp add: update_conv')
    from check_weight_iff [OF t m]
    have c: "\<And>u. check_weight (AList.update ''Pguess'' v (AList.update ''Plist'' v td))
          (rename_weight w ''P'' ''Plist'') ''Plist'' = Inr u
        \<longleftrightarrow> (\<not> not_float wv \<or> (\<not> isl (py_len wv) \<and> py_len wv = py_len v))" .
    show ?thesis
      using \<open>map_of dd ''P'' = Some v\<close> Some c
      by (auto simp: load_P_def weight_conforms_def moved_w_def has_key_def Let_def bind_Inr_iff)
  qed
qed

lemma weight_conforms_moved:
  "hdr \<noteq> h \<Longrightarrow> hdr \<noteq> key \<Longrightarrow>
   weight_conforms dd (moved_w h key dd w) hdr = weight_conforms dd w hdr"
  by (simp add: weight_conforms_def moved_w_def map_of_rename split: option.splits)

lemma load_fields_iff:
  "load_fields td w dd = Inr s \<longleftrightarrow>
     weight_conforms dd w ''xi'' \<and> weight_conforms dd w ''yi'' \<and> weight_conforms dd w ''P'' \<and>
     s = (loaded_td td dd, loaded_w w dd)"
  by (auto simp: load_fields_def bind_Inr_iff load_checked_iff load_T_eq load_P_iff
        weight_conforms_moved loaded_td_def loaded_w_def Let_def)


lemma py_len_truthy: "py_len v = Inr n \<Longrightarrow> py_truthy v \<longleftrightarrow> n \<noteq> 0"
  by (cases v) auto

lemma check_lengths_iff:
  "check_lengths td n keys = Inr u \<longleftrightarrow>
     (\<forall>k \<in> set keys. \<forall>v. map_of td k = Some v \<longrightarrow> py_len v = Inr n)"
proof (induction keys)
  case Nil
  then show ?case by simp
next
  case (Cons key keys)
  show ?case
  proof (cases "map_of td key")
    case None
    then show ?thesis using Cons by (simp add: has_key_def)
  next
    case (Some v)
    then show ?thesis using Cons
      by (cases "py_len v") (auto simp: has_key_def)
  qed
qed

lemma dict_update_Nil [simp]: "dict_update [] [] = []"
  by (simp add: dict_update_def)

lemma init_density_dict_eq:
  "init_density_dict td0 = AList.update ''density_dict'' (PDict []) td0"
proof -
  have "AList.update ''density_dict'' (PDict []) (AList.update ''density_dict'' (PDict []) td0)
      = AList.update ''density_dict'' (PDict []) td0"
    by (induction td0) auto
  then show ?thesis
    by (simp add: init_density_dict_def Let_def update_conv')
qed

lemma map_of_loaded_td:
  "map_of (loaded_td td dd) k =
     (if k = ''Pguess'' \<and> has_key dd ''P'' then map_of dd ''P''
      else if k = ''Plist'' \<and> has_key dd ''P'' then map_of dd ''P''
      else if k = ''yilist'' \<and> has_key dd ''yi'' then map_of dd ''yi''
      else if k = ''Tlist'' \<and> has_key dd ''T'' then map_of dd ''T''
      else if k = ''xilist'' \<and> has_key dd ''xi'' then map_of dd ''xi''
      else map_of td k)"
  by (simp add: loaded_td_def Let_def has_key_def update_conv' split: option.splits)

lemma infer_calculation_type_Inr:
  assumes "infer_calculation_type td = Inr td2"
  shows "\<exists>ct. map_of td ''calculation_type'' = Some ct \<and>
           (if ct = PNone
            then (\<exists>xi. map_of td ''xilist'' = Some xi \<and>
                   (if py_truthy xi
                    then td2 = AList.update ''calculation_type'' (PStr ''phase_xiT'') td
                    else (\<exists>yi. map_of td ''yilist'' = Some yi \<and> py_truthy yi \<and>
                           td2 = AList.update ''calculation_type'' (PStr ''phase_yiT'') td)))
            else td2 = td)"
proof (cases "map_of td ''calculation_type''")
  case None
  with assms show ?thesis by (simp add: infer_calculation_type_def)
next
  case ct: (Some ct)
  show ?thesis
  proof (cases "ct = PNone")
    case False
    with assms ct show ?thesis by (simp add: infer_calculation_type_def)
  next
    case isNone: True
    show ?thesis
    proof (cases "map_of td ''xilist''")
      case None
      with assms ct isNone show ?thesis by (simp add: infer_calculation_type_def)
    next
      case xi: (Some xi)
      show ?thesis
      proof (cases "py_truthy xi")
        case True
        with assms ct isNone xi show ?thesis by (simp add: infer_calculation_type_def)
      next
        case nx: False
        show ?thesis
        proof (cases "map_of td ''yilist''")
          case None
          with assms ct isNone xi nx show ?thesis by (simp add: infer_calculation_type_def)
        next
          case yi: (Some yi)
          with assms ct isNone xi nx show ?thesis
            by (cases "py_truthy yi") (simp_all add: infer_calculation_type_def)
        qed
      qed
    qed
  qed
qed

lemma infer_keys:
  assumes "infer_calculation_type td = Inr td2"
  shows "k \<noteq> ''calculation_type'' \<Longrightarrow> map_of td2 k = map_of td k"
    and "set (map fst td2) = set (map fst td)"
proof -
  from infer_calculation_type_Inr [OF assms] obtain ct where
    ct: "map_of td ''calculation_type'' = Some ct"
    and d: "td2 = td \<or> (\<exists>v. td2 = AList.update ''calculation_type'' v td)"
    by (auto split: if_splits)
  show "k \<noteq> ''calculation_type'' \<Longrightarrow> map_of td2 k = map_of td k"
    using d by (auto simp: update_conv')
  have "''calculation_type'' \<in> set (map fst td)"
    using ct by (metis map_of_eq_None_iff option.distinct(1) set_map)
  then show "set (map fst td2) = set (map fst td)"
    using d by (auto simp only: update_keys if_True)
qed

lemma Data_init_Inr_iff:
  "Data_init td0 w0 dd = Inr st \<longleftrightarrow>
     weight_conforms dd w0 ''xi'' \<and> weight_conforms dd w0 ''yi'' \<and> weight_conforms dd w0 ''P'' \<and>
     check_present (loaded_td (init_density_dict td0) dd) = Inr () \<and>
     (\<exists>tl n td2. map_of (loaded_td (init_density_dict td0) dd) ''Tlist'' = Some tl \<and>
        py_len tl = Inr n \<and>
        check_lengths (loaded_td (init_density_dict td0) dd) n [''Plist'', ''xilist'', ''yilist''] = Inr () \<and>
        infer_calculation_type (loaded_td (init_density_dict td0) dd) = Inr td2 \<and>
        st = \<lparr>thermodict = td2, weights = default_weights td2 (loaded_w w0 dd), npoints = n\<rparr>)"
  unfolding Data_init_def bind_Inr_iff load_fields_iff getitem_Inr_iff
  by (simp add: bind_Inr_iff getitem_Inr_iff) blast

lemma default_weights_keep:
  "has_key w k \<Longrightarrow>
   map_of (fold (\<lambda>key acc.
             if \<not> has_key acc key
             then (if key \<notin> set unweighted_keys
                   then AList.update key (PFloat (Fin 1)) acc else acc)
             else acc) keys w) k = map_of w k"
proof (induction keys arbitrary: w)
  case Nil
  then show ?case by simp
next
  case (Cons key keys)
  show ?case
  proof (cases "\<not> has_key w key \<and> key \<notin> set unweighted_keys")
    case True
    with Cons.prems have ne: "key \<noteq> k" by auto
    have "has_key (AList.update key (PFloat (Fin 1)) w) k"
      using Cons.prems by simp
    from Cons.IH [OF this] True ne show ?thesis
      by (simp add: update_conv')
  next
    case False
    with Cons.IH [OF Cons.prems] show ?thesis by auto
  qed
qed

lemma default_weights_new:
  "\<not> has_key w k \<Longrightarrow> k \<in> set keys \<Longrightarrow> k \<notin> set unweighted_keys \<Longrightarrow>
   map_of (fold (\<lambda>key acc.
             if \<not> has_key acc key
             then (if key \<notin> set unweighted_keys
                   then AList.update key (PFloat (Fin 1)) acc else acc)
             else acc) keys w) k = Some (PFloat (Fin 1))"
proof (induction keys arbitrary: w)
  case Nil
  then show ?case by simp
next
  case (Cons key keys)
  show ?case
  proof (cases "key = k")
    case True
    have h: "has_key (AList.update k (PFloat (Fin 1)) w) k" by simp
    from default_weights_keep [OF h, of keys] True Cons.prems show ?thesis
      by (simp add: update_conv')
  next
    case False
    with Cons.prems have in_keys: "k \<in> set keys" by simp
    show ?thesis
    proof (cases "\<not> has_key w key \<and> key \<notin> set unweighted_keys")
      case True
      have "\<not> has_key (AList.update key (PFloat (Fin 1)) w) k"
        using Cons.prems(1) False by simp
      from Cons.IH [OF this in_keys Cons.prems(3)] True show ?thesis by simp
    next
      case no_step: False
      with Cons.IH [OF Cons.prems(1) in_keys Cons.prems(3)] show ?thesis by auto
    qed
  qed
qed

lemma default_weights_covers:
  assumes "k \<in> set (map fst td)" and "k \<notin> set unweighted_keys"
  shows "has_key (default_weights td w) k"
    and "\<not> has_key w k \<Longrightarrow> map_of (default_weights td w) k = Some (PFloat (Fin 1))"
    and "has_key w k \<Longrightarrow> map_of (default_weights td w) k = map_of w k"
proof -
  show n: "\<not> has_key w k \<Longrightarrow> map_of (default_weights td w) k = Some (PFloat (Fin 1))"
    unfolding default_weights_def using assms by (intro default_weights_new)
  show o: "has_key w k \<Longrightarrow> map_of (default_weights td w) k = map_of w k"
    unfolding default_weights_def by (rule default_weights_keep)
  show "has_key (default_weights td w) k"
    using n o by (cases "has_key w k") (simp_all add: has_key_def)
qed

lemma has_key_moved_w:
  "has_key (moved_w hdr key dd w) k \<Longrightarrow> has_key w k \<or> (k = key \<and> has_key w hdr)"
  by (auto simp: moved_w_def has_key_def map_of_rename split: if_splits option.splits)

lemma has_key_loaded_w:
  assumes "has_key (loaded_w w dd) k"
  shows "has_key w k \<or> (k = ''xilist'' \<and> has_key w ''xi'') \<or> (k = ''Tlist'' \<and> has_key w ''T'')
       \<or> (k = ''yilist'' \<and> has_key w ''yi'') \<or> (k = ''Plist'' \<and> has_key w ''P'')"
proof -
  let ?w1 = "moved_w ''xi'' ''xilist'' dd w"
  let ?w2 = "moved_w ''T'' ''Tlist'' dd ?w1"
  let ?w3 = "moved_w ''yi'' ''yilist'' dd ?w2"
  have k1: "\<And>h. has_key ?w1 h \<Longrightarrow> has_key w h \<or> (h = ''xilist'' \<and> has_key w ''xi'')"
    by (rule has_key_moved_w)
  have k2: "\<And>h. has_key ?w2 h \<Longrightarrow> has_key ?w1 h \<or> (h = ''Tlist'' \<and> has_key ?w1 ''T'')"
    by (rule has_key_moved_w)
  have k3: "\<And>h. has_key ?w3 h \<Longrightarrow> has_key ?w2 h \<or> (h = ''yilist'' \<and> has_key ?w2 ''yi'')"
    by (rule has_key_moved_w)
  have k4: "has_key ?w3 k \<or> (k = ''Plist'' \<and> has_key ?w3 ''P'')"
    using assms unfolding loaded_w_def by (rule has_key_moved_w)
  have d: "''T'' \<noteq> ''xilist''" "''yi'' \<noteq> ''xilist''" "''yi'' \<noteq> ''Tlist''"
    "''P'' \<noteq> ''xilist''" "''P'' \<noteq> ''Tlist''" "''P'' \<noteq> ''yilist''"
    by simp_all
  have T: "has_key ?w1 ''T'' \<Longrightarrow> has_key w ''T''" using k1 [of "''T''"] d by blast
  have yi: "has_key ?w2 ''yi'' \<Longrightarrow> has_key w ''yi''"
    using k2 [of "''yi''"] k1 [of "''yi''"] d by blast
  have P: "has_key ?w3 ''P'' \<Longrightarrow> has_key w ''P''"
    using k3 [of "''P''"] k2 [of "''P''"] k1 [of "''P''"] d by blast
  from k4 k3 [of k] k2 [of k] k1 [of k] T yi P show ?thesis by blast
qed

lemma map_of_init_density_dict:
  "map_of (init_density_dict td0) k =
     (if k = ''density_dict'' then Some (PDict []) else map_of td0 k)"
  by (simp add: init_density_dict_eq update_conv')

lemma Data_init_thermodict:
  assumes "Data_init td0 w0 dd = Inr st"
  shows "k \<noteq> ''calculation_type'' \<Longrightarrow>
           map_of (thermodict st) k = map_of (loaded_td (init_density_dict td0) dd) k"
    and "set (map fst (thermodict st)) = set (map fst (loaded_td (init_density_dict td0) dd))"
    and "weights st = default_weights (thermodict st) (loaded_w w0 dd)"
    and "infer_calculation_type (loaded_td (init_density_dict td0) dd) = Inr (thermodict st)"
proof -
  from assms obtain td2 n where
    i: "infer_calculation_type (loaded_td (init_density_dict td0) dd) = Inr td2"
    and st: "st = \<lparr>thermodict = td2, weights = default_weights td2 (loaded_w w0 dd), npoints = n\<rparr>"
    unfolding Data_init_Inr_iff by blast
  show "k \<noteq> ''calculation_type'' \<Longrightarrow>
           map_of (thermodict st) k = map_of (loaded_td (init_density_dict td0) dd) k"
    using infer_keys(1) [OF i] st by simp
  show "set (map fst (thermodict st)) = set (map fst (loaded_td (init_density_dict td0) dd))"
    using infer_keys(2) [OF i] st by simp
  show "weights st = default_weights (thermodict st) (loaded_w w0 dd)"
    using st by simp
  show "infer_calculation_type (loaded_td (init_density_dict td0) dd) = Inr (thermodict st)"
    using i st by simp
qed

lemma density_dict_always_empty:
  assumes "Data_init td0 w0 dd = Inr st"
  shows "map_of (thermodict st) ''density_dict'' = Some (PDict [])"
proof -
  have "map_of (thermodict st) ''density_dict''
      = map_of (loaded_td (init_density_dict td0) dd) ''density_dict''"
    by (rule Data_init_thermodict(1) [OF assms]) simp
  also have "\<dots> = Some (PDict [])"
    by (simp add: map_of_loaded_td map_of_init_density_dict)
  finally show ?thesis .
qed

lemma Data_init_lengths:
  assumes "Data_init td0 w0 dd = Inr st"
  shows "\<exists>tl. map_of (loaded_td (init_density_dict td0) dd) ''Tlist'' = Some tl \<and>
           py_len tl = Inr (npoints st) \<and>
           (\<forall>k \<in> set [''Plist'', ''xilist'', ''yilist''].
              \<forall>v. map_of (loaded_td (init_density_dict td0) dd) k = Some v
                   \<longrightarrow> py_len v = Inr (npoints st))"
proof -
  from assms obtain tl n td2 where
    t: "map_of (loaded_td (init_density_dict td0) dd) ''Tlist'' = Some tl" "py_len tl = Inr n"
    and c: "check_lengths (loaded_td (init_density_dict td0) dd) n [''Plist'', ''xilist'', ''yilist''] = Inr ()"
    and st: "st = \<lparr>thermodict = td2, weights = default_weights td2 (loaded_w w0 dd), npoints = n\<rparr>"
    unfolding Data_init_Inr_iff by blast
  from st have n: "npoints st = n" by simp
  from c have "\<forall>k \<in> set [''Plist'', ''xilist'', ''yilist''].
      \<forall>v. map_of (loaded_td (init_density_dict td0) dd) k = Some v \<longrightarrow> py_len v = Inr n"
    unfolding check_lengths_iff .
  with t n show ?thesis by blast
qed

lemma Data_init_present:
  assumes "Data_init td0 w0 dd = Inr st"
  shows "has_key (loaded_td (init_density_dict td0) dd) ''xilist''"
    and "has_key (loaded_td (init_density_dict td0) dd) ''yilist''"
proof -
  from assms have "check_present (loaded_td (init_density_dict td0) dd) = Inr ()"
    unfolding Data_init_Inr_iff by blast
  then show "has_key (loaded_td (init_density_dict td0) dd) ''xilist''"
    and "has_key (loaded_td (init_density_dict td0) dd) ''yilist''"
    by (auto simp: check_present_def split: if_splits)
qed

lemma loaded_keys:
  "map_of (loaded_td td dd) ''Tlist'' = (if has_key dd ''T'' then map_of dd ''T'' else map_of td ''Tlist'')"
  "map_of (loaded_td td dd) ''Plist'' = (if has_key dd ''P'' then map_of dd ''P'' else map_of td ''Plist'')"
  "map_of (loaded_td td dd) ''xilist'' = (if has_key dd ''xi'' then map_of dd ''xi'' else map_of td ''xilist'')"
  "map_of (loaded_td td dd) ''yilist'' = (if has_key dd ''yi'' then map_of dd ''yi'' else map_of td ''yilist'')"
  "map_of (loaded_td td dd) ''calculation_type'' = map_of td ''calculation_type''"
  by (simp_all add: map_of_loaded_td)

lemma init_keys:
  "map_of (init_density_dict td0) ''Tlist'' = map_of td0 ''Tlist''"
  "map_of (init_density_dict td0) ''Plist'' = map_of td0 ''Plist''"
  "map_of (init_density_dict td0) ''xilist'' = map_of td0 ''xilist''"
  "map_of (init_density_dict td0) ''yilist'' = map_of td0 ''yilist''"
  "map_of (init_density_dict td0) ''calculation_type'' = map_of td0 ''calculation_type''"
  by (simp_all add: map_of_init_density_dict)


lemma check_present_iff:
  "check_present td = Inr u \<longleftrightarrow>
     (has_key td ''Plist'' \<or> has_key td ''Tlist'') \<and> has_key td ''xilist'' \<and> has_key td ''yilist''"
  by (auto simp: check_present_def)

lemma check_present_ImportError:
  "check_present td \<noteq> Inr () \<Longrightarrow> check_present td = Inl ImportError"
  by (auto simp: check_present_def)

lemma infer_succeeds:
  assumes "map_of td ''calculation_type'' = Some ct"
    and "map_of td ''xilist'' = Some xi"
    and "ct = PNone \<longrightarrow> py_truthy xi"
  shows "\<exists>td2. infer_calculation_type td = Inr td2"
  using assms by (cases "ct = PNone") (simp_all add: infer_calculation_type_def)

lemma Data_init_success_iff:
  assumes "\<not> has_key td0 ''Tlist''" "\<not> has_key td0 ''Plist''"
    "\<not> has_key td0 ''xilist''" "\<not> has_key td0 ''yilist''"
  shows "(\<exists>st. Data_init td0 w0 dd = Inr st) \<longleftrightarrow> construction_ok td0 w0 dd"
proof
  let ?td = "loaded_td (init_density_dict td0) dd"
  have T: "map_of ?td ''Tlist'' = map_of dd ''T''"
    and P: "map_of ?td ''Plist'' = map_of dd ''P''"
    and X: "map_of ?td ''xilist'' = map_of dd ''xi''"
    and Y: "map_of ?td ''yilist'' = map_of dd ''yi''"
    and C: "map_of ?td ''calculation_type'' = map_of td0 ''calculation_type''"
    using assms by (simp_all add: loaded_keys init_keys has_key_def)
  {
    assume "\<exists>st. Data_init td0 w0 dd = Inr st"
    then obtain st where ok: "Data_init td0 w0 dd = Inr st" by blast
    then have wc: "weight_conforms dd w0 ''xi''" "weight_conforms dd w0 ''yi''"
      "weight_conforms dd w0 ''P''"
      unfolding Data_init_Inr_iff by blast+
    from Data_init_lengths [OF ok] obtain tv where
      tv: "map_of dd ''T'' = Some tv" "py_len tv = Inr (npoints st)"
      and len: "\<forall>k \<in> set [''Plist'', ''xilist'', ''yilist''].
              \<forall>v. map_of ?td k = Some v \<longrightarrow> py_len v = Inr (npoints st)"
      unfolding T by blast
    from Data_init_present [OF ok] obtain xv yv where
      xy: "map_of dd ''xi'' = Some xv" "map_of dd ''yi'' = Some yv"
      unfolding has_key_def X Y by blast
    from len xy have lxy: "py_len xv = Inr (npoints st)" "py_len yv = Inr (npoints st)"
      by (simp_all add: X Y)
    from len have lp: "\<And>pv. map_of dd ''P'' = Some pv \<Longrightarrow> py_len pv = Inr (npoints st)"
      by (simp add: P)
    from infer_calculation_type_Inr [OF Data_init_thermodict(4) [OF ok]] obtain ct where
      ct: "map_of td0 ''calculation_type'' = Some ct"
      and tr: "ct = PNone \<longrightarrow> py_truthy xv \<or> py_truthy yv"
      unfolding C X Y using xy by (auto split: if_splits)
    from tr py_len_truthy [OF lxy(1)] py_len_truthy [OF lxy(2)]
    have "ct = PNone \<longrightarrow> npoints st \<noteq> 0" by blast
    with wc tv xy lxy lp ct show "construction_ok td0 w0 dd"
      by (auto simp: construction_ok_def split: option.splits)
  }
  {
    assume c: "construction_ok td0 w0 dd"
    then have wc: "weight_conforms dd w0 ''xi''" "weight_conforms dd w0 ''yi''"
      "weight_conforms dd w0 ''P''"
      by (simp_all add: construction_ok_def)
    from c obtain tv xv yv n ct where
      v: "map_of dd ''T'' = Some tv" "map_of dd ''xi'' = Some xv" "map_of dd ''yi'' = Some yv"
      and l: "py_len tv = Inr n" "py_len xv = Inr n" "py_len yv = Inr n"
      and lp: "\<And>pv. map_of dd ''P'' = Some pv \<Longrightarrow> py_len pv = Inr n"
      and ct: "map_of td0 ''calculation_type'' = Some ct" "ct = PNone \<longrightarrow> n \<noteq> 0"
      by (auto simp: construction_ok_def split: option.splits sum.splits)
    have pres: "check_present ?td = Inr ()"
      using v by (simp add: check_present_iff has_key_def T X Y)
    have cl: "check_lengths ?td n [''Plist'', ''xilist'', ''yilist''] = Inr ()"
      unfolding check_lengths_iff using v l lp by (simp add: P X Y)
    from ct py_len_truthy [OF l(2)] have "ct = PNone \<longrightarrow> py_truthy xv" by simp
    from infer_succeeds [of ?td ct xv, OF _ _ this] ct(1) v(2) obtain td2 where
      "infer_calculation_type ?td = Inr td2"
      unfolding C X by blast
    with wc pres cl v(1) l(1) show "\<exists>st. Data_init td0 w0 dd = Inr st"
      unfolding Data_init_Inr_iff T by blast
  }
qed

lemma Data_init_after_load:
  assumes "weight_conforms dd w0 ''xi''" "weight_conforms dd w0 ''yi''" "weight_conforms dd w0 ''P''"
  shows "Data_init td0 w0 dd =
     bind (check_present (loaded_td (init_density_dict td0) dd)) (\<lambda>_.
     bind (getitem (loaded_td (init_density_dict td0) dd) ''Tlist'') (\<lambda>tl.
     bind (py_len tl) (\<lambda>n.
     bind (check_lengths (loaded_td (init_density_dict td0) dd) n [''Plist'', ''xilist'', ''yilist'']) (\<lambda>_.
     bind (infer_calculation_type (loaded_td (init_density_dict td0) dd)) (\<lambda>td2.
       Inr \<lparr>thermodict = td2, weights = default_weights td2 (loaded_w w0 dd), npoints = n\<rparr>)))))"
proof -
  from assms have "load_fields (init_density_dict td0) w0 dd
      = Inr (loaded_td (init_density_dict td0) dd, loaded_w w0 dd)"
    unfolding load_fields_iff by simp
  then show ?thesis by (simp add: Data_init_def)
qed

section \<open>Results on the construction\<close>

text \<open>
  Claim C8. The claim: the constructed \<open>density_dict\<close> holds the density-scan options
  that were supplied, with the documented defaults for the others. The code: line 56
  replaces \<open>thermodict["density_dict"]\<close> by an empty dictionary before lines 57 and 58
  merge it with itself, so whatever options the template stored there are lost and no
  default is entered (lemma \<open>density_dict_always_empty\<close>: after every successful
  construction the dictionary is empty). Evaluated on a dataset that supplied
  \<open>rhoinc = 5\<close>: the construction succeeds and \<open>density_dict\<close> is \<open>{}\<close>.
\<close>

theorem density_dict_options_discarded:
  "map_of (thermodict (projr (Data_init
      [(''calculation_type'', PStr ''phase_xiT''),
       (''density_dict'', PDict [(''rhoinc'', PFloat (Fin 5))])]
      []
      [(''T'', PList [PFloat (Fin 300)]),
       (''xi'', PList [PList [PFloat (Fin 1)]]),
       (''yi'', PList [PList [PFloat (Fin 1)]])]))) ''density_dict'' = Some (PDict [])
   \<and> \<not> isl (Data_init
      [(''calculation_type'', PStr ''phase_xiT''),
       (''density_dict'', PDict [(''rhoinc'', PFloat (Fin 5))])]
      []
      [(''T'', PList [PFloat (Fin 300)]),
       (''xi'', PList [PList [PFloat (Fin 1)]]),
       (''yi'', PList [PList [PFloat (Fin 1)]])])"
  by code_simp

lemma inferred_type_is_xiT:
  assumes ok: "Data_init td0 w0 dd = Inr st"
    and none: "map_of td0 ''calculation_type'' = Some PNone"
  shows "map_of (thermodict st) ''calculation_type'' = Some (PStr ''phase_xiT'')"
    and "\<exists>xi. map_of (loaded_td (init_density_dict td0) dd) ''xilist'' = Some xi \<and> py_truthy xi"
proof -
  let ?td = "loaded_td (init_density_dict td0) dd"
  have ct: "map_of ?td ''calculation_type'' = Some PNone"
    using none by (simp add: map_of_loaded_td map_of_init_density_dict)
  from Data_init_present [OF ok] obtain xi yi where
    xi: "map_of ?td ''xilist'' = Some xi" and yi: "map_of ?td ''yilist'' = Some yi"
    by (auto simp: has_key_def)
  from Data_init_lengths [OF ok] xi yi have
    lx: "py_len xi = Inr (npoints st)" and ly: "py_len yi = Inr (npoints st)"
    by auto
  from infer_calculation_type_Inr [OF Data_init_thermodict(4) [OF ok]] ct xi
  have d: "if py_truthy xi
           then thermodict st = AList.update ''calculation_type'' (PStr ''phase_xiT'') ?td
           else (\<exists>yi. map_of ?td ''yilist'' = Some yi \<and> py_truthy yi)"
    by (auto split: if_splits)
  have tx: "py_truthy xi"
  proof (rule ccontr)
    assume nx: "\<not> py_truthy xi"
    with d yi have "py_truthy yi" by auto
    with py_len_truthy [OF ly] have "npoints st \<noteq> 0" by simp
    with py_len_truthy [OF lx] nx show False by simp
  qed
  with d have "thermodict st = AList.update ''calculation_type'' (PStr ''phase_xiT'') ?td"
    by simp
  then show "map_of (thermodict st) ''calculation_type'' = Some (PStr ''phase_xiT'')"
    by (simp add: update_conv')
  from xi tx show "\<exists>xi. map_of ?td ''xilist'' = Some xi \<and> py_truthy xi" by blast
qed

text \<open>
  Claim C9. After a successful construction that started with the calculation type
  \<open>None\<close>: the type is \<open>phase_xiT\<close> whenever the supplied \<open>xi\<close> is non-empty, it is
  \<open>phase_yiT\<close> only when \<open>xi\<close> is empty and \<open>yi\<close> is not, and it is never left as
  \<open>None\<close>. (The length checks of lines 96 to 100 make \<open>xi\<close> and \<open>yi\<close> as long as \<open>T\<close>,
  so on success \<open>xi\<close> is in fact non-empty and the type is \<open>phase_xiT\<close>: last conjunct
  and lemma \<open>inferred_type_is_xiT\<close>.)
\<close>

theorem calculation_type_inferred:
  assumes "Data_init td0 w0 dd = Inr st"
    and "map_of td0 ''calculation_type'' = Some PNone"
    and "map_of dd ''xi'' = Some xi"
    and "map_of dd ''yi'' = Some yi"
  shows "(py_truthy xi \<longrightarrow>
            map_of (thermodict st) ''calculation_type'' = Some (PStr ''phase_xiT''))
       \<and> (map_of (thermodict st) ''calculation_type'' = Some (PStr ''phase_yiT'')
            \<longrightarrow> \<not> py_truthy xi \<and> py_truthy yi)
       \<and> map_of (thermodict st) ''calculation_type'' \<noteq> None
       \<and> map_of (thermodict st) ''calculation_type'' \<noteq> Some PNone
       \<and> py_truthy xi"
proof -
  have x: "map_of (thermodict st) ''calculation_type'' = Some (PStr ''phase_xiT'')"
    by (rule inferred_type_is_xiT(1) [OF assms(1,2)])
  from inferred_type_is_xiT(2) [OF assms(1,2)] assms(3)
  have t: "py_truthy xi"
    by (simp add: map_of_loaded_td has_key_def)
  from x t show ?thesis by simp
qed

theorem calculation_type_inferred_witness:
  "map_of (thermodict (projr (Data_init [(''calculation_type'', PNone)] []
      [(''T'', PList [PFloat (Fin 300)]),
       (''xi'', PList [PList [PFloat (Fin 1)]]),
       (''yi'', PList [PList [PFloat (Fin 1)]])]))) ''calculation_type''
     = Some (PStr ''phase_xiT'')
   \<and> py_truthy (PList [PList [PFloat (Fin 1)]])"
proof -
  let ?dd = "[(''T'', PList [PFloat (Fin 300)]),
       (''xi'', PList [PList [PFloat (Fin 1)]]),
       (''yi'', PList [PList [PFloat (Fin 1)]])]"
  let ?td0 = "[(''calculation_type'', PNone)]"
  have a: "Data_init ?td0 [] ?dd = Inr (projr (Data_init ?td0 [] ?dd))" by code_simp
  have b: "map_of ?td0 ''calculation_type'' = Some PNone" by simp
  have c: "map_of ?dd ''xi'' = Some (PList [PList [PFloat (Fin 1)]])" by simp
  have d: "map_of ?dd ''yi'' = Some (PList [PList [PFloat (Fin 1)]])" by simp
  from calculation_type_inferred [OF a b c d] show ?thesis by simp
qed

text \<open>
  Claim C10. After a successful construction every key of \<open>thermodict\<close> other than
  \<open>calculation_type\<close>, \<open>density_dict\<close> and \<open>mpObj\<close> has an entry in \<open>weights\<close>, and the
  entry is 1.0 when the user supplied no weight for it, neither under the key itself nor
  under the data header (\<open>xi\<close>, \<open>T\<close>, \<open>yi\<close>, \<open>P\<close>) that the key is loaded from.
\<close>

theorem weights_cover_thermodict:
  assumes "Data_init td0 w0 dd = Inr st"
    and "k \<in> set (map fst (thermodict st))"
    and "k \<notin> set unweighted_keys"
  shows "has_key (weights st) k
       \<and> (\<not> has_key w0 k \<and> \<not> (k = ''xilist'' \<and> has_key w0 ''xi'')
            \<and> \<not> (k = ''Tlist'' \<and> has_key w0 ''T'') \<and> \<not> (k = ''yilist'' \<and> has_key w0 ''yi'')
            \<and> \<not> (k = ''Plist'' \<and> has_key w0 ''P'')
          \<longrightarrow> map_of (weights st) k = Some (PFloat (Fin 1)))"
proof -
  have w: "weights st = default_weights (thermodict st) (loaded_w w0 dd)"
    by (rule Data_init_thermodict(3) [OF assms(1)])
  have 1: "has_key (weights st) k"
    unfolding w by (rule default_weights_covers(1) [OF assms(2,3)])
  have 2: "map_of (weights st) k = Some (PFloat (Fin 1))"
    if "\<not> has_key w0 k" "\<not> (k = ''xilist'' \<and> has_key w0 ''xi'')"
      "\<not> (k = ''Tlist'' \<and> has_key w0 ''T'')" "\<not> (k = ''yilist'' \<and> has_key w0 ''yi'')"
      "\<not> (k = ''Plist'' \<and> has_key w0 ''P'')"
  proof -
    from that has_key_loaded_w [of w0 dd k] have "\<not> has_key (loaded_w w0 dd) k" by blast
    then show ?thesis
      unfolding w by (rule default_weights_covers(2) [OF assms(2,3)])
  qed
  from 1 2 show ?thesis by blast
qed

theorem weights_cover_thermodict_witness:
  "has_key (weights (projr (Data_init [(''calculation_type'', PNone)]
      [(''P'', PFloat (Fin 2))]
      [(''T'', PList [PFloat (Fin 300)]),
       (''xi'', PList [PList [PFloat (Fin 1)]]),
       (''yi'', PList [PList [PFloat (Fin 1)]]),
       (''P'', PList [PFloat (Fin 101325)])]))) ''Pguess''
   \<and> map_of (weights (projr (Data_init [(''calculation_type'', PNone)]
      [(''P'', PFloat (Fin 2))]
      [(''T'', PList [PFloat (Fin 300)]),
       (''xi'', PList [PList [PFloat (Fin 1)]]),
       (''yi'', PList [PList [PFloat (Fin 1)]]),
       (''P'', PList [PFloat (Fin 101325)])]))) ''Pguess'' = Some (PFloat (Fin 1))"
proof -
  let ?dd = "[(''T'', PList [PFloat (Fin 300)]),
       (''xi'', PList [PList [PFloat (Fin 1)]]),
       (''yi'', PList [PList [PFloat (Fin 1)]]),
       (''P'', PList [PFloat (Fin 101325)])]"
  let ?td0 = "[(''calculation_type'', PNone)]"
  let ?w0 = "[(''P'', PFloat (Fin 2))]"
  let ?st = "projr (Data_init ?td0 ?w0 ?dd)"
  have a: "Data_init ?td0 ?w0 ?dd = Inr ?st" by code_simp
  have b: "''Pguess'' \<in> set (map fst (thermodict ?st))" by code_simp
  have c: "''Pguess'' \<notin> set unweighted_keys" by code_simp
  have d: "\<not> has_key ?w0 ''Pguess''" by code_simp
  from weights_cover_thermodict [OF a b c] d show ?thesis by simp
qed




text \<open>
  Claim C7, as amended. The construction succeeds exactly when \<open>construction_ok\<close>
  holds, which needs \<open>T\<close> and both of \<open>xi\<close> and \<open>yi\<close>. With conforming weights, an input
  that has neither \<open>P\<close> nor \<open>T\<close>, or lacks \<open>xi\<close> or \<open>yi\<close>, is rejected by the presence
  checks of lines 90 to 94 (\<open>ImportError\<close>); an input with \<open>P\<close>, \<open>xi\<close> and \<open>yi\<close> but no \<open>T\<close>
  passes them and fails at line 96, where the number of points is read from \<open>Tlist\<close>
  (\<open>KeyError\<close>).
\<close>

theorem construction_requirements:
  assumes "\<not> has_key td0 ''Tlist''" "\<not> has_key td0 ''Plist''"
    "\<not> has_key td0 ''xilist''" "\<not> has_key td0 ''yilist''"
  shows "((\<exists>st. Data_init td0 w0 dd = Inr st) \<longleftrightarrow> construction_ok td0 w0 dd)
       \<and> (weight_conforms dd w0 ''xi'' \<and> weight_conforms dd w0 ''yi'' \<and> weight_conforms dd w0 ''P''
            \<and> ((\<not> has_key dd ''P'' \<and> \<not> has_key dd ''T'') \<or> \<not> has_key dd ''xi'' \<or> \<not> has_key dd ''yi'')
          \<longrightarrow> Data_init td0 w0 dd = Inl ImportError)
       \<and> (weight_conforms dd w0 ''xi'' \<and> weight_conforms dd w0 ''yi'' \<and> weight_conforms dd w0 ''P''
            \<and> has_key dd ''P'' \<and> has_key dd ''xi'' \<and> has_key dd ''yi'' \<and> \<not> has_key dd ''T''
          \<longrightarrow> Data_init td0 w0 dd = Inl KeyError)"
proof -
  let ?td = "loaded_td (init_density_dict td0) dd"
  have T: "map_of ?td ''Tlist'' = map_of dd ''T''"
    and P: "map_of ?td ''Plist'' = map_of dd ''P''"
    and X: "map_of ?td ''xilist'' = map_of dd ''xi''"
    and Y: "map_of ?td ''yilist'' = map_of dd ''yi''"
    using assms by (simp_all add: loaded_keys init_keys has_key_def)
  have keys: "has_key ?td ''Tlist'' = has_key dd ''T''" "has_key ?td ''Plist'' = has_key dd ''P''"
    "has_key ?td ''xilist'' = has_key dd ''xi''" "has_key ?td ''yilist'' = has_key dd ''yi''"
    by (simp_all add: has_key_def T P X Y)
  have 1: "(\<exists>st. Data_init td0 w0 dd = Inr st) \<longleftrightarrow> construction_ok td0 w0 dd"
    by (rule Data_init_success_iff [OF assms])
  have 2: "Data_init td0 w0 dd = Inl ImportError"
    if wc: "weight_conforms dd w0 ''xi''" "weight_conforms dd w0 ''yi''" "weight_conforms dd w0 ''P''"
      and m: "(\<not> has_key dd ''P'' \<and> \<not> has_key dd ''T'') \<or> \<not> has_key dd ''xi'' \<or> \<not> has_key dd ''yi''"
  proof -
    from m have "check_present ?td \<noteq> Inr ()"
      unfolding check_present_iff keys by blast
    then have "check_present ?td = Inl ImportError"
      by (rule check_present_ImportError)
    then show ?thesis
      unfolding Data_init_after_load [OF wc] by simp
  qed
  have 3: "Data_init td0 w0 dd = Inl KeyError"
    if wc: "weight_conforms dd w0 ''xi''" "weight_conforms dd w0 ''yi''" "weight_conforms dd w0 ''P''"
      and m: "has_key dd ''P''" "has_key dd ''xi''" "has_key dd ''yi''" "\<not> has_key dd ''T''"
  proof -
    from m have "check_present ?td = Inr ()"
      unfolding check_present_iff keys by blast
    moreover from m(4) have "map_of ?td ''Tlist'' = None"
      unfolding T by (simp add: has_key_def)
    ultimately show ?thesis
      unfolding Data_init_after_load [OF wc] by simp
  qed
  from 1 2 3 show ?thesis by blast
qed

theorem construction_requirements_witness:
  "(\<exists>st. Data_init [(''calculation_type'', PNone)] []
      [(''T'', PList [PFloat (Fin 300)]),
       (''xi'', PList [PList [PFloat (Fin 1)]]),
       (''yi'', PList [PList [PFloat (Fin 1)]])] = Inr st)
   \<and> Data_init [(''calculation_type'', PNone)] []
      [(''T'', PList [PFloat (Fin 300)]),
       (''yi'', PList [PList [PFloat (Fin 1)]])] = Inl ImportError
   \<and> Data_init [(''calculation_type'', PNone)] []
      [(''P'', PList [PFloat (Fin 101325)]),
       (''xi'', PList [PList [PFloat (Fin 1)]]),
       (''yi'', PList [PList [PFloat (Fin 1)]])] = Inl KeyError"
proof -
  let ?td0 = "[(''calculation_type'', PNone)]"
  let ?w0 = "[] :: pydict"
  let ?dd1 = "[(''T'', PList [PFloat (Fin 300)]),
       (''xi'', PList [PList [PFloat (Fin 1)]]),
       (''yi'', PList [PList [PFloat (Fin 1)]])]"
  let ?dd2 = "[(''T'', PList [PFloat (Fin 300)]),
       (''yi'', PList [PList [PFloat (Fin 1)]])]"
  let ?dd3 = "[(''P'', PList [PFloat (Fin 101325)]),
       (''xi'', PList [PList [PFloat (Fin 1)]]),
       (''yi'', PList [PList [PFloat (Fin 1)]])]"
  have h: "\<not> has_key ?td0 ''Tlist''" "\<not> has_key ?td0 ''Plist''"
    "\<not> has_key ?td0 ''xilist''" "\<not> has_key ?td0 ''yilist''"
    by (simp_all add: has_key_def)
  have ok: "construction_ok ?td0 ?w0 ?dd1" by code_simp
  have wc2: "weight_conforms ?dd2 ?w0 ''xi'' \<and> weight_conforms ?dd2 ?w0 ''yi''
      \<and> weight_conforms ?dd2 ?w0 ''P''
      \<and> ((\<not> has_key ?dd2 ''P'' \<and> \<not> has_key ?dd2 ''T'') \<or> \<not> has_key ?dd2 ''xi''
          \<or> \<not> has_key ?dd2 ''yi'')"
    by code_simp
  have wc3: "weight_conforms ?dd3 ?w0 ''xi'' \<and> weight_conforms ?dd3 ?w0 ''yi''
      \<and> weight_conforms ?dd3 ?w0 ''P''
      \<and> has_key ?dd3 ''P'' \<and> has_key ?dd3 ''xi'' \<and> has_key ?dd3 ''yi'' \<and> \<not> has_key ?dd3 ''T''"
    by code_simp
  from construction_requirements [OF h, of ?w0 ?dd1] ok
  have a: "\<exists>st. Data_init ?td0 ?w0 ?dd1 = Inr st" by blast
  from construction_requirements [OF h, of ?w0 ?dd2] wc2
  have b: "Data_init ?td0 ?w0 ?dd2 = Inl ImportError" by blast
  from construction_requirements [OF h, of ?w0 ?dd3] wc3
  have c: "Data_init ?td0 ?w0 ?dd3 = Inl KeyError" by blast
  from a b c show ?thesis by blast
qed

text \<open>
  Claim C7 as stated fails: this input provides one of \<open>P\<close>, \<open>T\<close> and both of \<open>xi\<close>,
  \<open>yi\<close>, and its construction raises \<open>KeyError\<close>.
\<close>

theorem pressure_without_temperature_fails:
  "(has_key [(''P'', PList [PFloat (Fin 101325)]),
             (''xi'', PList [PList [PFloat (Fin 1)]]),
             (''yi'', PList [PList [PFloat (Fin 1)]])] ''P''
    \<or> has_key [(''P'', PList [PFloat (Fin 101325)]),
             (''xi'', PList [PList [PFloat (Fin 1)]]),
             (''yi'', PList [PList [PFloat (Fin 1)]])] ''T'')
   \<and> has_key [(''P'', PList [PFloat (Fin 101325)]),
             (''xi'', PList [PList [PFloat (Fin 1)]]),
             (''yi'', PList [PList [PFloat (Fin 1)]])] ''xi''
   \<and> has_key [(''P'', PList [PFloat (Fin 101325)]),
             (''xi'', PList [PList [PFloat (Fin 1)]]),
             (''yi'', PList [PList [PFloat (Fin 1)]])] ''yi''
   \<and> Data_init [(''calculation_type'', PStr ''phase_xiT'')] []
        [(''P'', PList [PFloat (Fin 101325)]),
         (''xi'', PList [PList [PFloat (Fin 1)]]),
         (''yi'', PList [PList [PFloat (Fin 1)]])] = Inl KeyError"
  by code_simp

section \<open>Results on the objective\<close>

lemma reraise_Inl [simp]: "reraise_ValueError (Inl e) = Inl ValueError"
  by (simp add: reraise_ValueError_def)

lemma thermo_wrapper_failure:
  assumes "thermo e (thermodict st) = Inl err"
    and "map_of (thermodict st) ''calculation_type'' = Some ct"
    and "ct = PStr ''phase_xiT'' \<or> ct = PStr ''phase_yiT''"
  shows "thermo_wrapper e st = Inl ValueError"
  using assms(3)
proof
  assume "ct = PStr ''phase_xiT''"
  with assms(1,2) show ?thesis by (simp add: thermo_wrapper_def)
next
  assume "ct = PStr ''phase_yiT''"
  with assms(1,2) show ?thesis by (simp add: thermo_wrapper_def)
qed

text \<open>
  Claim C4, as amended. When the prediction raises any exception, under the calculation
  type \<open>phase_xiT\<close> or \<open>phase_yiT\<close>, \<open>_thermo_wrapper\<close> catches it and raises
  \<open>ValueError\<close> in its place, and \<open>objective\<close> does not catch that: the \<open>ValueError\<close>
  reaches the caller of \<open>objective\<close> and no score is returned.
\<close>

theorem thermo_failure_propagates:
  assumes "thermo e (thermodict st) = Inl err"
    and "map_of (thermodict st) ''calculation_type'' = Some ct"
    and "ct = PStr ''phase_xiT'' \<or> ct = PStr ''phase_yiT''"
  shows "thermo_wrapper e st = Inl ValueError \<and> objective e st = Inl ValueError"
proof -
  have w: "thermo_wrapper e st = Inl ValueError"
    by (rule thermo_wrapper_failure [OF assms])
  then have "obj_values e st = Inl ValueError"
    by (simp add: obj_values_def)
  then have "objective e st = Inl ValueError"
    by (simp add: objective_def)
  with w show ?thesis by simp
qed

theorem thermo_failure_propagates_witness:
  "thermo_wrapper failing_env example_data = Inl ValueError
   \<and> objective failing_env example_data = Inl ValueError"
proof -
  have a: "thermo failing_env (thermodict example_data) = Inl ValueError"
    by (simp add: failing_env_def)
  have b: "map_of (thermodict example_data) ''calculation_type'' = Some (PStr ''phase_xiT'')"
    by (simp add: example_data_def)
  have c: "PStr ''phase_xiT'' = PStr ''phase_xiT'' \<or> PStr ''phase_xiT'' = PStr ''phase_yiT''"
    by simp
  from thermo_failure_propagates [OF a b c] show ?thesis .
qed

text \<open>
  Claim C4 as stated fails: with a prediction that raises, \<open>objective\<close> does not return
  \<open>+inf\<close>, it raises \<open>ValueError\<close>.
\<close>

theorem objective_raises_on_thermo_failure:
  "thermo failing_env (thermodict example_data) = Inl ValueError
   \<and> objective failing_env example_data \<noteq> Inr PInf
   \<and> objective failing_env example_data = Inl ValueError"
  by code_simp

lemma nansum_pair:
  "nansum [a, b] = fadd (fadd (Fin 0) (if isnan a then Fin 0 else a)) (if isnan b then Fin 0 else b)"
  by (simp add: nansum_def)

lemma nansum_pair_PInf:
  "nansum [a, b] = PInf \<longleftrightarrow> (a = PInf \<and> b \<noteq> NInf) \<or> (b = PInf \<and> a \<noteq> NInf)"
  unfolding nansum_pair by (cases a; cases b) simp_all

lemma obj_values_length:
  assumes "obj_values e st = Inr v"
  shows "\<exists>a b. v = [a, b]"
  using assms unfolding obj_values_def bind_Inr_iff by blast

text \<open>
  Claim C3, as amended. Whenever the two channel scores \<open>v\<close> are computed, the
  objective is \<open>+inf\<close> if every score is \<open>nan\<close> or zero, and the \<open>nansum\<close> of the scores
  otherwise. It is \<open>+inf\<close> exactly when every score is \<open>nan\<close> or zero, or some score is
  \<open>+inf\<close> and none is \<open>-inf\<close>: the \<open>nansum\<close> of a vector with an infinite score is
  itself infinite.
\<close>

theorem objective_aggregation:
  assumes "obj_values e st = Inr v"
  shows "length v = 2
       \<and> objective e st = Inr (obj_total v)
       \<and> (list_all (\<lambda>x. isnan x \<or> x = Fin 0) v \<longrightarrow> obj_total v = PInf)
       \<and> (\<not> list_all (\<lambda>x. isnan x \<or> x = Fin 0) v \<longrightarrow> obj_total v = nansum v)
       \<and> (obj_total v = PInf \<longleftrightarrow>
            list_all (\<lambda>x. isnan x \<or> x = Fin 0) v \<or> (PInf \<in> set v \<and> NInf \<notin> set v))"
proof -
  from obj_values_length [OF assms] obtain a b where v: "v = [a, b]" by blast
  have 1: "objective e st = Inr (obj_total v)"
    using assms by (simp add: objective_def)
  have 2: "obj_total v = PInf \<longleftrightarrow>
      list_all (\<lambda>x. isnan x \<or> x = Fin 0) v \<or> (PInf \<in> set v \<and> NInf \<notin> set v)"
  proof (cases "list_all (\<lambda>x. isnan x \<or> x = Fin 0) v")
    case True
    then show ?thesis by (simp add: obj_total_def)
  next
    case False
    then have "obj_total v = nansum v" by (simp add: obj_total_def)
    then have "obj_total v = PInf \<longleftrightarrow> (a = PInf \<and> b \<noteq> NInf) \<or> (b = PInf \<and> a \<noteq> NInf)"
      unfolding v by (simp only: nansum_pair_PInf)
    moreover have "(PInf \<in> set v \<and> NInf \<notin> set v)
        \<longleftrightarrow> (a = PInf \<and> b \<noteq> NInf) \<or> (b = PInf \<and> a \<noteq> NInf)"
      unfolding v by auto
    ultimately show ?thesis using False by blast
  qed
  have 3: "length v = 2" by (simp add: v)
  have 4: "list_all (\<lambda>x. isnan x \<or> x = Fin 0) v \<longrightarrow> obj_total v = PInf"
    by (simp add: obj_total_def)
  have 5: "\<not> list_all (\<lambda>x. isnan x \<or> x = Fin 0) v \<longrightarrow> obj_total v = nansum v"
    by (simp add: obj_total_def)
  from 1 2 3 4 5 show ?thesis by blast
qed

theorem objective_aggregation_witness:
  "objective (scoring_env (Fin 2)) example_data = Inr (Fin 2)
   \<and> objective (scoring_env NaN) example_data = Inr PInf"
proof -
  have a: "obj_values (scoring_env (Fin 2)) example_data = Inr [Fin 2, Fin 0]" by code_simp
  have b: "obj_values (scoring_env NaN) example_data = Inr [NaN, Fin 0]" by code_simp
  have c: "obj_total [Fin 2, Fin 0] = Fin 2" by code_simp
  have d: "obj_total [NaN, Fin 0] = PInf" by code_simp
  from objective_aggregation [OF a] objective_aggregation [OF b] c d show ?thesis by simp
qed

text \<open>
  Claim C3 as stated fails in the direction `only if': with the pressure score \<open>+inf\<close>
  and the composition score 0 the objective is \<open>+inf\<close>, and not every score is \<open>nan\<close> or
  zero.
\<close>

theorem infinite_channel_gives_infinite_score:
  "obj_values (scoring_env PInf) example_data = Inr [PInf, Fin 0]
   \<and> objective (scoring_env PInf) example_data = Inr PInf
   \<and> \<not> list_all (\<lambda>x. isnan x \<or> x = Fin 0) [PInf, Fin 0]"
  by code_simp

section \<open>Properties of the perturbation term\<close>

lemma fmul_nonfinite_right: "\<not> is_finite y \<Longrightarrow> \<not> is_finite (fmul x y)"
  by (cases x; cases y) (simp_all add: inf_of_sign_def)

lemma fmul_nonfinite_left: "\<not> is_finite x \<Longrightarrow> \<not> is_finite (fmul x y)"
  by (cases x; cases y) (simp_all add: inf_of_sign_def)

lemma fdiv_zero_nonfinite: "\<not> is_finite (fdiv x (Fin 0))"
  by (cases x) (simp_all add: inf_of_sign_def)

lemma fmul_assoc: "fmul (fmul x y) z = fmul x (fmul y z)"
proof (cases x)
  case (Fin a)
  show ?thesis
  proof (cases y)
    case (Fin b)
    with \<open>x = Fin a\<close> show ?thesis
      by (cases z) (auto simp: inf_of_sign_def zero_less_mult_iff mult_less_0_iff)
  next
    case PInf
    with \<open>x = Fin a\<close> show ?thesis
      by (cases z) (auto simp: inf_of_sign_def zero_less_mult_iff mult_less_0_iff)
  next
    case NInf
    with \<open>x = Fin a\<close> show ?thesis
      by (cases z) (auto simp: inf_of_sign_def zero_less_mult_iff mult_less_0_iff)
  next
    case NaN
    with \<open>x = Fin a\<close> show ?thesis
      by (cases z) (auto simp: inf_of_sign_def)
  qed
next
  case PInf
  show ?thesis
  proof (cases y)
    case (Fin b)
    with \<open>x = PInf\<close> show ?thesis
      by (cases z) (auto simp: inf_of_sign_def zero_less_mult_iff mult_less_0_iff)
  next
    case NaN
    with \<open>x = PInf\<close> show ?thesis by (cases z) auto
  next
    case PInf
    with \<open>x = PInf\<close> show ?thesis by (cases z) (auto simp: inf_of_sign_def)
  next
    case NInf
    with \<open>x = PInf\<close> show ?thesis by (cases z) (auto simp: inf_of_sign_def)
  qed
next
  case NInf
  show ?thesis
  proof (cases y)
    case (Fin b)
    with \<open>x = NInf\<close> show ?thesis
      by (cases z) (auto simp: inf_of_sign_def zero_less_mult_iff mult_less_0_iff)
  next
    case NaN
    with \<open>x = NInf\<close> show ?thesis by (cases z) auto
  next
    case PInf
    with \<open>x = NInf\<close> show ?thesis by (cases z) (auto simp: inf_of_sign_def)
  next
    case NInf
    with \<open>x = NInf\<close> show ?thesis by (cases z) (auto simp: inf_of_sign_def)
  qed
next
  case NaN
  then show ?thesis by simp
qed

lemma a1s_entry_forms_agree: "a1s_entry_2d C eta l e d = a1s_entry_1d C eta l e d"
  by (simp add: a1s_entry_2d_def a1s_entry_1d_def fmul_assoc)

lemma a1s_entry_2d_pole: "\<not> is_finite (a1s_entry_2d C eta (Fin 3) e d)"
  unfolding a1s_entry_2d_def
  by (rule fmul_nonfinite_right) (simp add: fsub_def fdiv_zero_nonfinite)

lemma a1s_entry_1d_pole: "\<not> is_finite (a1s_entry_1d C eta (Fin 3) e d)"
  unfolding a1s_entry_forms_agree [symmetric] by (rule a1s_entry_2d_pole)

lemma broadcast_zetax_length:
  "broadcast_zetax n zetax = Inr zx \<Longrightarrow> length zx = n"
  by (auto simp: broadcast_zetax_def split: if_splits list.splits)

lemma is_matrix_row: "is_matrix r c m \<Longrightarrow> k < r \<Longrightarrow> length (m ! k) = c"
  by (simp add: is_matrix_def list_all_length)

lemma is_matrix_length: "is_matrix r c m \<Longrightarrow> length m = r"
  by (simp add: is_matrix_def)

lemma calc_a1s_2d_entries:
  assumes z: "broadcast_zetax (length rho) zetax = Inr zx"
    and m: "is_matrix nb nb l_kl" "is_matrix nb nb eps" "is_matrix nb nb dkl"
    and c: "nb = 0 \<or> is_matrix 4 4 ckl"
  shows "\<exists>res. calc_a1s_2d ckl rho C l_kl zetax eps dkl = Inr res \<and> length res = length rho \<and>
     (\<forall>i<length rho. length (res ! i) = nb \<and> (\<forall>k<nb. length (res ! i ! k) = nb \<and>
        (\<forall>l<nb. res ! i ! k ! l =
           fmul (a1s_entry_2d C (etakl_entry ckl (zetax_pow_row (zx ! i)) (l_kl ! k ! l))
                   (l_kl ! k ! l) (eps ! k ! l) (dkl ! k ! l)) (rho ! i))))"
proof -
  have nb: "length dkl = nb" "length l_kl = nb" "length eps = nb"
    using m by (simp_all add: is_matrix_length)
  have zl: "length zx = length rho"
    by (rule broadcast_zetax_length [OF z])
  have rows: "\<And>k. k < nb \<Longrightarrow> length (l_kl ! k) = nb \<and> length (eps ! k) = nb \<and> length (dkl ! k) = nb"
    using m by (simp add: is_matrix_row)
  let ?res = "map (\<lambda>(a_i, r). map (map (\<lambda>a. fmul a r)) a_i)
      (zip (map (\<lambda>eta_i.
                       map (\<lambda>(eta_row, l_row, e_row, d_row).
                              map (\<lambda>(eta, l, e, d). a1s_entry_2d C eta l e d)
                                  (zip eta_row (zip l_row (zip e_row d_row))))
                           (zip eta_i (zip l_kl (zip eps dkl))))
                 (map (\<lambda>zp. map (map (etakl_entry ckl zp)) l_kl) (map zetax_pow_row zx))) rho)"
  have r: "calc_a1s_2d ckl rho C l_kl zetax eps dkl = Inr ?res"
    using z m c nb by (auto simp: calc_a1s_2d_def Let_def comp_assoc)
  have l1: "length ?res = length rho"
    by (simp add: zl)
  have l2: "length (?res ! i) = nb" if "i < length rho" for i
    using that by (simp add: zl nb)
  have l3: "length (?res ! i ! k) = nb" if "i < length rho" "k < nb" for i k
    using that rows [of k] by (simp add: zl nb)
  have e: "?res ! i ! k ! l =
           fmul (a1s_entry_2d C (etakl_entry ckl (zetax_pow_row (zx ! i)) (l_kl ! k ! l))
                   (l_kl ! k ! l) (eps ! k ! l) (dkl ! k ! l)) (rho ! i)"
    if "i < length rho" "k < nb" "l < nb" for i k l
    using that rows [of k] by (simp add: zl nb)
  from r l1 l2 l3 e show ?thesis by blast
qed

lemma calc_a1s_1d_entries:
  assumes z: "broadcast_zetax (length rho) zetax = Inr zx"
    and m: "length l_kl = nb" "length eps = nb" "length dkl = nb"
    and c: "nb = 0 \<or> is_matrix 4 4 ckl"
  shows "\<exists>res. calc_a1s_1d ckl rho C l_kl zetax eps dkl = Inr res \<and> length res = length rho \<and>
     (\<forall>i<length rho. length (res ! i) = nb \<and>
        (\<forall>k<nb. res ! i ! k =
           fmul (a1s_entry_1d C (etakl_entry ckl (zetax_pow_row (zx ! i)) (l_kl ! k))
                   (l_kl ! k) (eps ! k) (dkl ! k)) (rho ! i)))"
proof -
  have zl: "length zx = length rho"
    by (rule broadcast_zetax_length [OF z])
  let ?res = "map (\<lambda>(a_i, r). map (\<lambda>a. fmul a r) a_i)
      (zip (map (\<lambda>eta_i.
                       map (\<lambda>(eta, l, e, d). a1s_entry_1d C eta l e d)
                           (zip eta_i (zip l_kl (zip eps dkl))))
                 (map (\<lambda>zp. map (etakl_entry ckl zp) l_kl) (map zetax_pow_row zx))) rho)"
  have r: "calc_a1s_1d ckl rho C l_kl zetax eps dkl = Inr ?res"
    using z m c by (auto simp: calc_a1s_1d_def Let_def comp_assoc)
  have l1: "length ?res = length rho"
    by (simp add: zl)
  have l2: "length (?res ! i) = nb" if "i < length rho" for i
    using that by (simp add: zl m)
  have e: "?res ! i ! k =
           fmul (a1s_entry_1d C (etakl_entry ckl (zetax_pow_row (zx ! i)) (l_kl ! k))
                   (l_kl ! k) (eps ! k) (dkl ! k)) (rho ! i)"
    if "i < length rho" "k < nb" for i k
    using that by (simp add: zl m)
  from r l1 l2 e show ?thesis by blast
qed

lemma list4: "length xs = 4 \<Longrightarrow> xs = [xs ! 0, xs ! 1, xs ! 2, xs ! 3]"
  by (auto simp: eval_nat_numeral length_Suc_conv)

lemma matrix44:
  assumes "is_matrix 4 4 c"
  obtains a0 a1 a2 a3 b0 b1 b2 b3 c0 c1 c2 c3 d0 d1 d2 d3 :: 'a
  where "c = [[a0, a1, a2, a3], [b0, b1, b2, b3], [c0, c1, c2, c3], [d0, d1, d2, d3]]"
proof -
  from assms have l: "length c = 4" and r: "\<And>k. k < 4 \<Longrightarrow> length (c ! k) = 4"
    by (simp_all add: is_matrix_def list_all_length)
  from list4 [OF l] list4 [OF r [of 0]] list4 [OF r [of 1]] list4 [OF r [of 2]] list4 [OF r [of 3]]
  have "c = [[c ! 0 ! 0, c ! 0 ! 1, c ! 0 ! 2, c ! 0 ! 3],
             [c ! 1 ! 0, c ! 1 ! 1, c ! 1 ! 2, c ! 1 ! 3],
             [c ! 2 ! 0, c ! 2 ! 1, c ! 2 ! 2, c ! 2 ! 3],
             [c ! 3 ! 0, c ! 3 ! 1, c ! 3 ! 2, c ! 3 ! 3]]"
    by simp
  then show ?thesis by (rule that)
qed

lemma etakl_entry_real:
  assumes "is_matrix 4 4 c" and "lam \<noteq> 0"
  shows "etakl_entry (map (map Fin) c) (zetax_pow_row (Fin z)) (Fin lam) = Fin (eta_real c z lam)"
proof -
  from assms(1) obtain a0 a1 a2 a3 b0 b1 b2 b3 c0 c1 c2 c3 d0 d1 d2 d3
    where c: "c = [[a0, a1, a2, a3], [b0, b1, b2, b3], [c0, c1, c2, c3], [d0, d1, d2, d3]]"
    by (rule matrix44)
  show ?thesis
    using assms(2) unfolding c
    by (simp add: etakl_entry_def zetax_pow_row_def lambda_vec_def matvec_def fsquare_def
        fcube_def eta_real_def coef_def power2_eq_square power3_eq_cube power4_eq_xxxx
        add.assoc)
qed

lemma a1s_entry_2d_real:
  assumes "lam \<noteq> 3" and "eta \<noteq> 1"
  shows "fmul (a1s_entry_2d (Fin cm) (Fin eta) (Fin lam) (Fin e) (Fin d)) (Fin r)
       = Fin ((1 - eta / 2) / (1 - eta) ^ 3 * (- 2 * pi * cm * (e * d ^ 3 / (lam - 3))) * r)"
  using assms
  by (simp add: a1s_entry_2d_def fsub_def fcube_def power3_eq_cube)

lemma a1s_2d_closed_form_aux:
  assumes c: "is_matrix 4 4 c"
    and z: "broadcast_zetax (length rho) zetax = Inr zx"
    and m: "is_matrix nb nb l_kl" "is_matrix nb nb eps" "is_matrix nb nb dkl"
    and i: "i < length rho" "k < nb" "l < nb"
    and v: "rho ! i = Fin r" "zx ! i = Fin z" "l_kl ! k ! l = Fin lam"
      "eps ! k ! l = Fin e" "dkl ! k ! l = Fin d"
    and p: "lam \<noteq> 0" "lam \<noteq> 3" "eta_real c z lam \<noteq> 1"
  shows "\<exists>res. calc_a1s_2d (map (map Fin) c) rho (Fin cm) l_kl zetax eps dkl = Inr res
           \<and> res ! i ! k ! l = Fin (a1s_real c cm z lam e d r)"
proof -
  have c': "nb = 0 \<or> is_matrix 4 4 (map (map Fin) c)"
    using c by (simp add: is_matrix_def list_all_length)
  from calc_a1s_2d_entries [OF z m c', of "Fin cm"] i obtain res where
    r: "calc_a1s_2d (map (map Fin) c) rho (Fin cm) l_kl zetax eps dkl = Inr res"
    and e: "res ! i ! k ! l =
           fmul (a1s_entry_2d (Fin cm)
                   (etakl_entry (map (map Fin) c) (zetax_pow_row (zx ! i)) (l_kl ! k ! l))
                   (l_kl ! k ! l) (eps ! k ! l) (dkl ! k ! l)) (rho ! i)"
    by blast
  have "res ! i ! k ! l = Fin (a1s_real c cm z lam e d r)"
    unfolding e v etakl_entry_real [OF c p(1)] a1s_entry_2d_real [OF p(2,3)] a1s_real_def ..
  with r show ?thesis by blast
qed

lemma a1s_1d_closed_form_aux:
  assumes c: "is_matrix 4 4 c"
    and z: "broadcast_zetax (length rho) zetax = Inr zx"
    and m: "length l_kl = nb" "length eps = nb" "length dkl = nb"
    and i: "i < length rho" "k < nb"
    and v: "rho ! i = Fin r" "zx ! i = Fin z" "l_kl ! k = Fin lam"
      "eps ! k = Fin e" "dkl ! k = Fin d"
    and p: "lam \<noteq> 0" "lam \<noteq> 3" "eta_real c z lam \<noteq> 1"
  shows "\<exists>res. calc_a1s_1d (map (map Fin) c) rho (Fin cm) l_kl zetax eps dkl = Inr res
           \<and> res ! i ! k = Fin (a1s_real c cm z lam e d r)"
proof -
  have c': "nb = 0 \<or> is_matrix 4 4 (map (map Fin) c)"
    using c by (simp add: is_matrix_def list_all_length)
  from calc_a1s_1d_entries [OF z m c', of "Fin cm"] i obtain res where
    r: "calc_a1s_1d (map (map Fin) c) rho (Fin cm) l_kl zetax eps dkl = Inr res"
    and e: "res ! i ! k =
           fmul (a1s_entry_1d (Fin cm)
                   (etakl_entry (map (map Fin) c) (zetax_pow_row (zx ! i)) (l_kl ! k))
                   (l_kl ! k) (eps ! k) (dkl ! k)) (rho ! i)"
    by blast
  have "res ! i ! k = Fin (a1s_real c cm z lam e d r)"
    unfolding e v etakl_entry_real [OF c p(1)] a1s_entry_forms_agree [symmetric]
      a1s_entry_2d_real [OF p(2,3)] a1s_real_def ..
  with r show ?thesis by blast
qed

lemma ckl_real_matrix: "is_matrix 4 4 ckl_real"
  by (simp add: is_matrix_def ckl_real_def)

lemma eta_real_example: "eta_real ckl_real (1 / 2) 6 = 2287249 / 10800000"
  by (simp add: eta_real_def coef_def ckl_real_def power2_eq_square power3_eq_cube power4_eq_xxxx)

lemma spec_poly_example: "spec_poly ckl_real (1 / 2) 6 = 2287249 / 5400000"
  by (simp add: spec_poly_def coef_def ckl_real_def power2_eq_square power3_eq_cube)

lemma a1s_real_example:
  "a1s_real ckl_real 1 (1 / 2) 6 1 1 1 = - (750879758880000000000 / 616892927317185100751) * pi"
  by (simp add: a1s_real_def eta_real_example power3_eq_cube)

lemma spec_a1s_literal_example: "spec_a1s_literal 1 (1 / 2) 6 1 1 1 = - 4 * pi"
  by (simp add: spec_a1s_literal_def power3_eq_cube)

lemma spec_a1s_poly_example:
  "spec_a1s_poly ckl_real 1 (1 / 2) 6 1 1 1 = - (82743939720000000000 / 30160125471568900751) * pi"
  by (simp add: spec_a1s_poly_def spec_poly_example power3_eq_cube)

section \<open>Results on the perturbation term\<close>

text \<open>
  Claim C2, as amended. For finite arguments with \<open>\<lambda>\<^sub>k\<^sub>l\<close> neither 0 nor 3 and an effective
  packing fraction \<open>\<eta>\<close> other than 1, the entry of the result at density \<open>i\<close> and groups
  \<open>(k, l)\<close> is \<open>a1s_real\<close>: the powers of \<open>\<zeta>\<^sub>x\<close> of degree 1 to 4 are built, \<open>\<eta>\<close> is the
  polynomial of four terms in them with the coefficients \<open>ckl_coef \<cdot> (1, 1/\<lambda>, 1/\<lambda>\<^sup>2, 1/\<lambda>\<^sup>3)\<close>,
  the correction factor is \<open>(1 - \<eta>/2)/(1 - \<eta>)\<^sup>3\<close>, it is scaled by
  \<open>-2\<pi> \<cdot> Cmol2seg \<cdot> \<epsilon> \<cdot> d\<^sup>3/(\<lambda> - 3)\<close> and multiplied by \<open>\<rho>[i]\<close>. The first conjunct is the
  matrix form, the second the vector form.
\<close>

theorem a1s_closed_form:
  assumes "is_matrix 4 4 c"
    and "broadcast_zetax (length rho) zetax = Inr zx"
    and "i < length rho" and "rho ! i = Fin r" and "zx ! i = Fin z"
    and "lam \<noteq> 0" and "lam \<noteq> 3" and "eta_real c z lam \<noteq> 1"
  shows "(is_matrix nb nb l_kl \<and> is_matrix nb nb eps \<and> is_matrix nb nb dkl \<and> k < nb \<and> l < nb
            \<and> l_kl ! k ! l = Fin lam \<and> eps ! k ! l = Fin e \<and> dkl ! k ! l = Fin d
          \<longrightarrow> (\<exists>res. calc_a1s_2d (map (map Fin) c) rho (Fin cm) l_kl zetax eps dkl = Inr res
                 \<and> res ! i ! k ! l = Fin (a1s_real c cm z lam e d r)))
       \<and> (length lv = nb \<and> length ev = nb \<and> length dv = nb \<and> k < nb
            \<and> lv ! k = Fin lam \<and> ev ! k = Fin e \<and> dv ! k = Fin d
          \<longrightarrow> (\<exists>res. calc_a1s_1d (map (map Fin) c) rho (Fin cm) lv zetax ev dv = Inr res
                 \<and> res ! i ! k = Fin (a1s_real c cm z lam e d r)))"
  using a1s_2d_closed_form_aux [OF assms(1,2) _ _ _ assms(3) _ _ assms(4,5) _ _ _ assms(6,7,8)]
    a1s_1d_closed_form_aux [OF assms(1,2) _ _ _ assms(3) _ assms(4,5) _ _ _ assms(6,7,8)]
  by blast

theorem a1s_closed_form_witness:
  "projr (calc_a1s_2d ckl_published [Fin 1] (Fin 1) [[Fin 6]] [Fin (1 / 2)] [[Fin 1]] [[Fin 1]])
      ! 0 ! 0 ! 0 = Fin (a1s_real ckl_real 1 (1 / 2) 6 1 1 1)
   \<and> projr (calc_a1s_1d ckl_published [Fin 1] (Fin 1) [Fin 6] [Fin (1 / 2)] [Fin 1] [Fin 1])
      ! 0 ! 0 = Fin (a1s_real ckl_real 1 (1 / 2) 6 1 1 1)"
proof -
  have z: "broadcast_zetax (length [Fin 1]) [Fin (1 / 2)] = Inr [Fin (1 / 2)]"
    by (simp add: broadcast_zetax_def)
  have i: "(0::nat) < length [Fin (1::real)]" by simp
  have r: "[Fin 1] ! 0 = Fin 1" and zi: "[Fin (1 / 2)] ! 0 = Fin (1 / 2)" by simp_all
  have p: "(6::real) \<noteq> 0" "(6::real) \<noteq> 3" "eta_real ckl_real (1 / 2) 6 \<noteq> 1"
    by (simp_all add: eta_real_example)
  have m: "is_matrix 1 1 [[Fin 6]] \<and> is_matrix 1 1 [[Fin 1]] \<and> is_matrix 1 1 [[Fin 1]]
      \<and> (0::nat) < 1 \<and> (0::nat) < 1
      \<and> [[Fin 6]] ! 0 ! 0 = Fin 6 \<and> [[Fin 1]] ! 0 ! 0 = Fin 1 \<and> [[Fin 1]] ! 0 ! 0 = Fin 1"
    by (simp add: is_matrix_def)
  have v: "length [Fin 6] = 1 \<and> length [Fin 1] = 1 \<and> length [Fin 1] = 1 \<and> (0::nat) < 1
      \<and> [Fin 6] ! 0 = Fin 6 \<and> [Fin 1] ! 0 = Fin 1 \<and> [Fin 1] ! 0 = Fin 1"
    by simp
  from a1s_closed_form [OF ckl_real_matrix z i r zi p,
      of 1 "[[Fin 6]]" "[[Fin 1]]" "[[Fin 1]]" 0 0 1 1 1 "[Fin 6]" "[Fin 1]" "[Fin 1]"] m v
  show ?thesis
    unfolding ckl_published_def by auto
qed

text \<open>
  Claim C2 as stated fails. At \<open>\<zeta>\<^sub>x = 1/2\<close>, \<open>\<lambda> = 6\<close> and all other arguments 1,
  neither form returns the value with the correction factor taken in \<open>\<zeta>\<^sub>x\<close>, nor the
  value with the factor taken in a polynomial of the powers up to degree 3.
\<close>

theorem a1s_differs_from_specified_factor:
  "calc_a1s_2d ckl_published [Fin 1] (Fin 1) [[Fin 6]] [Fin (1 / 2)] [[Fin 1]] [[Fin 1]]
     \<noteq> Inr [[[Fin (spec_a1s_literal 1 (1 / 2) 6 1 1 1)]]]
   \<and> calc_a1s_2d ckl_published [Fin 1] (Fin 1) [[Fin 6]] [Fin (1 / 2)] [[Fin 1]] [[Fin 1]]
     \<noteq> Inr [[[Fin (spec_a1s_poly ckl_real 1 (1 / 2) 6 1 1 1)]]]
   \<and> calc_a1s_1d ckl_published [Fin 1] (Fin 1) [Fin 6] [Fin (1 / 2)] [Fin 1] [Fin 1]
     \<noteq> Inr [[Fin (spec_a1s_literal 1 (1 / 2) 6 1 1 1)]]
   \<and> calc_a1s_1d ckl_published [Fin 1] (Fin 1) [Fin 6] [Fin (1 / 2)] [Fin 1] [Fin 1]
     \<noteq> Inr [[Fin (spec_a1s_poly ckl_real 1 (1 / 2) 6 1 1 1)]]"
proof -
  have z: "broadcast_zetax (length [Fin 1]) [Fin (1 / 2)] = Inr [Fin (1 / 2)]"
    by (simp add: broadcast_zetax_def)
  have p: "(6::real) \<noteq> 0" "(6::real) \<noteq> 3" "eta_real ckl_real (1 / 2) 6 \<noteq> 1"
    by (simp_all add: eta_real_example)
  have m: "is_matrix 1 1 [[Fin 6]]" "is_matrix 1 1 [[Fin 1]]" "is_matrix 1 1 [[Fin 1]]"
    by (simp_all add: is_matrix_def)
  from a1s_2d_closed_form_aux [OF ckl_real_matrix z m, of 0 0 0 1 "1 / 2" 6 1 1, OF _ _ _ _ _ _ _ _ p]
  obtain res2 where
    r2: "calc_a1s_2d ckl_published [Fin 1] (Fin 1) [[Fin 6]] [Fin (1 / 2)] [[Fin 1]] [[Fin 1]]
         = Inr res2"
    and e2: "res2 ! 0 ! 0 ! 0 = Fin (a1s_real ckl_real 1 (1 / 2) 6 1 1 1)"
    unfolding ckl_published_def by auto
  from a1s_1d_closed_form_aux [OF ckl_real_matrix z, of "[Fin 6]" 1 "[Fin 1]" "[Fin 1]"
      0 0 1 "1 / 2" 6 1 1, OF _ _ _ _ _ _ _ _ _ _ p]
  obtain res1 where
    r1: "calc_a1s_1d ckl_published [Fin 1] (Fin 1) [Fin 6] [Fin (1 / 2)] [Fin 1] [Fin 1]
         = Inr res1"
    and e1: "res1 ! 0 ! 0 = Fin (a1s_real ckl_real 1 (1 / 2) 6 1 1 1)"
    unfolding ckl_published_def by auto
  have n1: "a1s_real ckl_real 1 (1 / 2) 6 1 1 1 \<noteq> spec_a1s_literal 1 (1 / 2) 6 1 1 1"
    unfolding a1s_real_example spec_a1s_literal_example by simp
  have n2: "a1s_real ckl_real 1 (1 / 2) 6 1 1 1 \<noteq> spec_a1s_poly ckl_real 1 (1 / 2) 6 1 1 1"
    unfolding a1s_real_example spec_a1s_poly_example by simp
  from r2 e2 r1 e1 n1 n2 show ?thesis by auto
qed

text \<open>
  Claim C1, as amended. Neither function checks its arguments: for arrays of the
  expected shapes, and whatever the packing fractions are, the call returns a result; every
  entry of the result at a group pair with \<open>\<lambda>\<^sub>k\<^sub>l = 3\<close> is an infinity or \<open>nan\<close>.
\<close>

theorem pole_returns_nonfinite:
  assumes "is_matrix 4 4 ckl"
    and "broadcast_zetax (length rho) zetax = Inr zx"
  shows "(is_matrix nb nb l_kl \<and> is_matrix nb nb eps \<and> is_matrix nb nb dkl
          \<longrightarrow> (\<exists>res. calc_a1s_2d ckl rho C l_kl zetax eps dkl = Inr res
                 \<and> (\<forall>i<length rho. \<forall>k<nb. \<forall>l<nb.
                      l_kl ! k ! l = Fin 3 \<longrightarrow> \<not> is_finite (res ! i ! k ! l))))
       \<and> (length lv = nb \<and> length ev = nb \<and> length dv = nb
          \<longrightarrow> (\<exists>res. calc_a1s_1d ckl rho C lv zetax ev dv = Inr res
                 \<and> (\<forall>i<length rho. \<forall>k<nb.
                      lv ! k = Fin 3 \<longrightarrow> \<not> is_finite (res ! i ! k))))"
proof -
  have c: "nb = 0 \<or> is_matrix 4 4 ckl" using assms(1) by simp
  have 2: "\<exists>res. calc_a1s_2d ckl rho C l_kl zetax eps dkl = Inr res
                 \<and> (\<forall>i<length rho. \<forall>k<nb. \<forall>l<nb.
                      l_kl ! k ! l = Fin 3 \<longrightarrow> \<not> is_finite (res ! i ! k ! l))"
    if m: "is_matrix nb nb l_kl" "is_matrix nb nb eps" "is_matrix nb nb dkl"
  proof -
    from calc_a1s_2d_entries [OF assms(2) m c, of C] obtain res where
      r: "calc_a1s_2d ckl rho C l_kl zetax eps dkl = Inr res"
      and e: "\<And>i k l. i < length rho \<Longrightarrow> k < nb \<Longrightarrow> l < nb \<Longrightarrow> res ! i ! k ! l =
           fmul (a1s_entry_2d C (etakl_entry ckl (zetax_pow_row (zx ! i)) (l_kl ! k ! l))
                   (l_kl ! k ! l) (eps ! k ! l) (dkl ! k ! l)) (rho ! i)"
      by blast
    have "\<not> is_finite (res ! i ! k ! l)"
      if "i < length rho" "k < nb" "l < nb" "l_kl ! k ! l = Fin 3" for i k l
      unfolding e [OF that(1,2,3)] that(4)
      by (rule fmul_nonfinite_left) (rule a1s_entry_2d_pole)
    with r show ?thesis by blast
  qed
  have 1: "\<exists>res. calc_a1s_1d ckl rho C lv zetax ev dv = Inr res
                 \<and> (\<forall>i<length rho. \<forall>k<nb. lv ! k = Fin 3 \<longrightarrow> \<not> is_finite (res ! i ! k))"
    if m: "length lv = nb" "length ev = nb" "length dv = nb"
  proof -
    from calc_a1s_1d_entries [OF assms(2) m c, of C] obtain res where
      r: "calc_a1s_1d ckl rho C lv zetax ev dv = Inr res"
      and e: "\<And>i k. i < length rho \<Longrightarrow> k < nb \<Longrightarrow> res ! i ! k =
           fmul (a1s_entry_1d C (etakl_entry ckl (zetax_pow_row (zx ! i)) (lv ! k))
                   (lv ! k) (ev ! k) (dv ! k)) (rho ! i)"
      by blast
    have "\<not> is_finite (res ! i ! k)"
      if "i < length rho" "k < nb" "lv ! k = Fin 3" for i k
      unfolding e [OF that(1,2)] that(3)
      by (rule fmul_nonfinite_left) (rule a1s_entry_1d_pole)
    with r show ?thesis by blast
  qed
  from 1 2 show ?thesis by blast
qed

theorem pole_returns_nonfinite_witness:
  "\<not> isl (calc_a1s_2d ckl_published [Fin 1, Fin 2] (Fin 1) [[Fin 3]] [Fin (1 / 10), Fin 2]
            [[Fin 1]] [[Fin 1]])
   \<and> \<not> is_finite (projr (calc_a1s_2d ckl_published [Fin 1, Fin 2] (Fin 1) [[Fin 3]]
            [Fin (1 / 10), Fin 2] [[Fin 1]] [[Fin 1]]) ! 1 ! 0 ! 0)
   \<and> \<not> isl (calc_a1s_1d ckl_published [Fin 1, Fin 2] (Fin 1) [Fin 3] [Fin (1 / 10), Fin 2]
            [Fin 1] [Fin 1])
   \<and> \<not> is_finite (projr (calc_a1s_1d ckl_published [Fin 1, Fin 2] (Fin 1) [Fin 3]
            [Fin (1 / 10), Fin 2] [Fin 1] [Fin 1]) ! 1 ! 0)"
proof -
  have c: "is_matrix 4 4 ckl_published"
    by (simp add: is_matrix_def ckl_published_def ckl_real_def)
  have z: "broadcast_zetax (length [Fin 1, Fin 2]) [Fin (1 / 10), Fin 2] = Inr [Fin (1 / 10), Fin 2]"
    by (simp add: broadcast_zetax_def)
  have m: "is_matrix 1 1 [[Fin 3]] \<and> is_matrix 1 1 [[Fin 1]] \<and> is_matrix 1 1 [[Fin 1]]"
    by (simp add: is_matrix_def)
  have v: "length [Fin 3] = 1 \<and> length [Fin 1] = 1 \<and> length [Fin 1] = 1" by simp
  from pole_returns_nonfinite [OF c z, of 1 "[[Fin 3]]" "[[Fin 1]]" "[[Fin 1]]" "Fin 1"
      "[Fin 3]" "[Fin 1]" "[Fin 1]"] m v
  show ?thesis by auto
qed

text \<open>
  Claim C1 as stated fails: at \<open>\<lambda> = 3\<close> both forms return \<open>-inf\<close> (or \<open>nan\<close>, when the
  density is 0) instead of raising, and at \<open>\<zeta>\<^sub>x = 1\<close>, \<open>\<lambda> = 6\<close> the vector form returns a
  finite value instead of raising.
\<close>

theorem pole_returns_infinity:
  "calc_a1s_1d ckl_published [Fin 1] (Fin 1) [Fin 3] [Fin 0] [Fin 1] [Fin 1] = Inr [[NInf]]
   \<and> calc_a1s_2d ckl_published [Fin 1] (Fin 1) [[Fin 3]] [Fin 0] [[Fin 1]] [[Fin 1]]
       = Inr [[[NInf]]]
   \<and> calc_a1s_2d ckl_published [Fin 0] (Fin 1) [[Fin 3]] [Fin 0] [[Fin 1]] [[Fin 1]]
       = Inr [[[NaN]]]
   \<and> calc_a1s_1d ckl_published [Fin 1] (Fin 1) [Fin 6] [Fin 1] [Fin 1] [Fin 1]
       = Inr [[Fin (- (1386794317500000000 / 811615342067885069) * pi)]]"
  by (simp add: calc_a1s_1d_def calc_a1s_2d_def ckl_published_def ckl_real_def
      broadcast_zetax_def is_matrix_def zetax_pow_row_def etakl_entry_def matvec_def
      lambda_vec_def a1s_entry_1d_def a1s_entry_2d_def fsub_def fcube_def fsquare_def
      inf_of_sign_def Let_def)


end
